theory Spec2Isabelle
  imports Complex_Main
begin

section \<open>Arrays, fixed-size vectors, matrices and errors\<close>

text \<open>
  The source works on \<^verbatim>\<open>double\<close>. The embedding computes with exact arithmetic:
  the array functions are written for any entry type that has \<open>0\<close>, \<open>+\<close> and \<open>*\<close>,
  their theorems are stated for any semiring (the reals in particular), and the
  alignment functions, which need a square root and an order, are written for \<open>real\<close>.
  Rounding, infinities and NaN are outside the model.

  A \<^verbatim>\<open>pele::Array<double>\<close> is a list, a \<^verbatim>\<open>VecN<3>\<close> is a \<open>vec3\<close>, a
  \<^verbatim>\<open>MatrixNM<3,3>\<close> is a function of its row and column index. An exception is a
  value of type \<open>error\<close>; a function that returns a fresh array returns \<open>error + 'a list\<close>, a
  function that writes into a caller's array returns the final contents of that array
  together with the exception it threw, if any. \<^verbatim>\<open>assert\<close> is modelled as a check that
  fails with \<open>AssertionFailure\<close>.
\<close>

datatype error = InvalidArgument | RuntimeError | AssertionFailure

datatype 'a vec3 = Vec3 'a 'a 'a

type_synonym 'a matrix33 = "nat \<Rightarrow> nat \<Rightarrow> 'a"

fun vec3_get :: "'a vec3 \<Rightarrow> nat \<Rightarrow> 'a" where
  "vec3_get (Vec3 a b c) k = (if k = 0 then a else if k = 1 then b else c)"

text \<open>
  Conversion of a three-element array (view) to a \<^verbatim>\<open>VecN<3>\<close> and back; \<open>vec3_at xs k\<close>
  is the vector held by the three entries of \<open>xs\<close> from index \<open>k\<close> on.
\<close>

definition vec3_at :: "'a list \<Rightarrow> nat \<Rightarrow> 'a vec3" where
  "vec3_at xs k = Vec3 (xs ! k) (xs ! (k + 1)) (xs ! (k + 2))"

definition vec3_of_array :: "'a list \<Rightarrow> 'a vec3" where
  "vec3_of_array xs = vec3_at xs 0"

fun array_of_vec3 :: "'a vec3 \<Rightarrow> 'a list" where
  "array_of_vec3 (Vec3 a b c) = [a, b, c]"

text \<open>
  Modelled from the spec: \<^verbatim>\<open>Array::view(ibegin, iend)\<close> of \<^verbatim>\<open>pele/array.h\<close>, which is not
  part of the sources. A view is the sub-range \<open>[ibegin, iend)\<close> of the array and
  aliases it; the design notes require views to validate their index range, and a wrong
  length is an invalid-argument failure. Reading a view is \<open>view\<close>; writing through a
  view whose range has been validated is \<open>assign_view\<close> on the array it aliases.
\<close>

definition view :: "'a list \<Rightarrow> nat \<Rightarrow> nat \<Rightarrow> error + 'a list" where
  "view xs ibegin iend =
     (if ibegin \<le> iend \<and> iend \<le> length xs
      then Inr (take (iend - ibegin) (drop ibegin xs))
      else Inl InvalidArgument)"

definition assign_view :: "'a list \<Rightarrow> nat \<Rightarrow> 'a list \<Rightarrow> 'a list" where
  "assign_view xs ibegin ys = take ibegin xs @ ys @ drop (ibegin + length ys) xs"

text \<open>
  Modelled from the spec: \<^verbatim>\<open>HackyMatrix(v, dim2)\<close> of \<^verbatim>\<open>pele/array.h\<close>, the row-major
  matrix view of a flat array (``one 3-D position per atom, flattened''): entry \<open>(i, j)\<close>
  is entry \<open>i * dim2 + j\<close> of the array.
\<close>

definition hacky_index :: "nat \<Rightarrow> nat \<Rightarrow> nat \<Rightarrow> nat" where
  "hacky_index dim2 i j = i * dim2 + j"

section \<open>Rigid fragment\<close>

text \<open>
  Modelled from the spec: the class declaration is in \<^verbatim>\<open>pele/aatopology.h\<close>, which is not
  part of the sources. A fragment stores its body-frame atom positions as a flat array of
  \<open>N\<close> three-dimensional points; \<^verbatim>\<open>_ndim\<close> is 3, \<^verbatim>\<open>_natoms\<close> is \<open>N\<close>, and
  \<^verbatim>\<open>_atom_positions_matrix\<close> is the matrix view of the array.
\<close>

record 'a rigid_fragment =
  atom_positions :: "'a list"

definition ndim :: nat where
  "ndim = 3"

definition natoms :: "'a rigid_fragment \<Rightarrow> nat" where
  "natoms f = length (atom_positions f) div ndim"

definition atom_positions_matrix :: "'a rigid_fragment \<Rightarrow> nat \<Rightarrow> nat \<Rightarrow> 'a" where
  "atom_positions_matrix f atom k = atom_positions f ! hacky_index ndim atom k"

text \<open>The data-model invariant of a fragment: the array holds whole points.\<close>

definition fragment_ok :: "'a rigid_fragment \<Rightarrow> bool" where
  "fragment_ok f = (length (atom_positions f) = ndim * natoms f)"

subsection \<open>\<^verbatim>\<open>RigidFragment::to_atomistic\<close>\<close>

text \<open>
  The innermost loop (source lines 21 to 24): \<^verbatim>\<open>val\<close> starts at \<^verbatim>\<open>com[j]\<close> and
  accumulates \<^verbatim>\<open>rmat(j,k) * _atom_positions_matrix(atom,k)\<close> for \<open>k = 0, 1, 2\<close>.
\<close>

definition to_atomistic_val ::
  "'a::{plus,times} matrix33 \<Rightarrow> 'a rigid_fragment \<Rightarrow> 'a list \<Rightarrow> nat \<Rightarrow> nat \<Rightarrow> 'a" where
  "to_atomistic_val rmat f com atom j =
     foldl (\<lambda>val k. val + rmat j k * atom_positions_matrix f atom k) (com ! j) [0..<ndim]"

text \<open>
  The two outer loops (lines 19 to 27) store \<^verbatim>\<open>val\<close> at \<^verbatim>\<open>mpos(atom, j)\<close>. The fresh
  array \<^verbatim>\<open>pos\<close> has unspecified contents in the source; the model fills it with \<open>0\<close>, and
  for a fragment that satisfies \<open>fragment_ok\<close> every entry is overwritten.
  The assertion of line 11 is the check on the length of \<^verbatim>\<open>com\<close>; that of line 12 holds
  by the type of \<^verbatim>\<open>p\<close>. The rotation primitive \<^verbatim>\<open>aa_to_rot_mat\<close> of \<^verbatim>\<open>pele/rotations.h\<close> is a parameter.
\<close>

definition RigidFragment_to_atomistic ::
  "('a vec3 \<Rightarrow> 'a matrix33) \<Rightarrow> 'a::{zero,plus,times} rigid_fragment \<Rightarrow> 'a list \<Rightarrow> 'a vec3
     \<Rightarrow> error + 'a list" where
  "RigidFragment_to_atomistic aa_to_rot_mat f com p =
     (if length com \<noteq> ndim then Inl AssertionFailure
      else
        let rmat = aa_to_rot_mat p;
            pos = replicate (length (atom_positions f)) 0
        in Inr (foldl (\<lambda>pos atom.
                  foldl (\<lambda>pos j. pos[hacky_index ndim atom j := to_atomistic_val rmat f com atom j])
                    pos [0..<ndim])
                pos [0..<natoms f]))"

subsection \<open>\<^verbatim>\<open>RigidFragment::transform_grad\<close>\<close>

fun vec3_set :: "'a vec3 \<Rightarrow> nat \<Rightarrow> 'a \<Rightarrow> 'a vec3" where
  "vec3_set (Vec3 a b c) k v =
     (if k = 0 then Vec3 v b c else if k = 1 then Vec3 a v c else Vec3 a b v)"

fun vec3_assign :: "'a vec3 \<Rightarrow> 'a \<Rightarrow> 'a vec3" where
  "vec3_assign (Vec3 a b c) v = Vec3 v v v"

text \<open>
  Lines 51 to 57: for each \<open>k\<close>, \<^verbatim>\<open>val\<close> starts at 0 and accumulates \<^verbatim>\<open>gmat(atom,k)\<close>
  over the atoms, where \<^verbatim>\<open>gmat\<close> is the matrix view of \<^verbatim>\<open>g\<close> with three columns.
\<close>

definition g_com_val :: "'a::{zero,plus} rigid_fragment \<Rightarrow> 'a list \<Rightarrow> nat \<Rightarrow> 'a" where
  "g_com_val f g k = foldl (\<lambda>val atom. val + g ! hacky_index 3 atom k) 0 [0..<natoms f]"

text \<open>
  Lines 62 to 71 for one derivative matrix: \<^verbatim>\<open>val1\<close>, \<^verbatim>\<open>val2\<close> and \<^verbatim>\<open>val3\<close> run
  through the same two loops with \<^verbatim>\<open>drm1\<close>, \<^verbatim>\<open>drm2\<close> and \<^verbatim>\<open>drm3\<close>.
\<close>

definition g_rot_val ::
  "'a::{zero,plus,times} matrix33 \<Rightarrow> 'a rigid_fragment \<Rightarrow> 'a list \<Rightarrow> nat \<Rightarrow> 'a" where
  "g_rot_val drm f g atom =
     foldl (\<lambda>val i.
         foldl (\<lambda>val j. val + g ! hacky_index 3 atom i * drm i j * atom_positions_matrix f atom j)
           val [0..<3])
       0 [0..<3]"

text \<open>
  The body of the loop over the atoms, lines 62 to 74: the three sums of one atom are
  added to the three entries of \<^verbatim>\<open>g_rot\<close>.
\<close>

definition g_rot_atom ::
  "'a::{zero,plus,times} matrix33 \<Rightarrow> 'a matrix33 \<Rightarrow> 'a matrix33 \<Rightarrow> 'a rigid_fragment \<Rightarrow> 'a list
     \<Rightarrow> 'a vec3 \<Rightarrow> nat \<Rightarrow> 'a vec3" where
  "g_rot_atom drm1 drm2 drm3 f g g_rot atom =
     (let val1 = g_rot_val drm1 f g atom;
          val2 = g_rot_val drm2 f g atom;
          val3 = g_rot_val drm3 f g atom;
          g_rot = vec3_set g_rot 0 (vec3_get g_rot 0 + val1);
          g_rot = vec3_set g_rot 1 (vec3_get g_rot 1 + val2)
      in vec3_set g_rot 2 (vec3_get g_rot 2 + val3))"

text \<open>
  \<^verbatim>\<open>rot_mat_derivatives\<close> of \<^verbatim>\<open>pele/rotations.h\<close> is a parameter: it returns the rotation
  matrix and its three derivative matrices. The outputs \<^verbatim>\<open>g_com\<close> and \<^verbatim>\<open>g_rot\<close> are
  passed by reference: the model takes their old values and returns the new ones.
  \<^verbatim>\<open>g_rot.assign(0)\<close> is \<open>vec3_assign\<close>.
\<close>

definition RigidFragment_transform_grad ::
  "('a vec3 \<Rightarrow> 'a matrix33 \<times> 'a matrix33 \<times> 'a matrix33 \<times> 'a matrix33)
     \<Rightarrow> 'a::{zero,plus,times} rigid_fragment \<Rightarrow> 'a vec3 \<Rightarrow> 'a list \<Rightarrow> 'a vec3 \<Rightarrow> 'a vec3
     \<Rightarrow> error + ('a vec3 \<times> 'a vec3)" where
  "RigidFragment_transform_grad rot_mat_derivatives f p g g_com g_rot =
     (if length g \<noteq> natoms f * 3 then Inl AssertionFailure
      else
        case rot_mat_derivatives p of (rmat, drm1, drm2, drm3) \<Rightarrow>
          let g_com = foldl (\<lambda>g_com k. vec3_set g_com k (g_com_val f g k)) g_com [0..<3];
              g_rot = vec3_assign g_rot 0;
              g_rot = foldl (g_rot_atom drm1 drm2 drm3 f g) g_rot [0..<natoms f]
          in Inr (g_com, g_rot))"

section \<open>Coordinate adaptor\<close>

text \<open>
  Modelled from the spec: \<^verbatim>\<open>CoordsAdaptor\<close> of \<^verbatim>\<open>pele/aatopology.h\<close>, which is not part
  of the sources. Given \<open>(nrigid, non_rigid_atom_count, backing_array)\<close>, constructing it
  with a backing array shorter than \<open>6 * nrigid + 3 * non_rigid_atom_count\<close> is an error;
  all centres are the sub-view \<open>[0, 3 * nrigid)\<close> and all rotations the sub-view
  \<open>[3 * nrigid, 6 * nrigid)\<close>. The adaptor aliases the array: the model keeps the
  contents of the array in the adaptor, and a write through one of its views is
  \<open>ca_write\<close>.
\<close>

record 'a coords_adaptor =
  ca_nrigid :: nat
  ca_natoms :: nat
  ca_coords :: "'a list"

definition CoordsAdaptor :: "nat \<Rightarrow> nat \<Rightarrow> 'a list \<Rightarrow> error + 'a coords_adaptor" where
  "CoordsAdaptor n m coords =
     (if length coords < 6 * n + 3 * m then Inl InvalidArgument
      else Inr \<lparr>ca_nrigid = n, ca_natoms = m, ca_coords = coords\<rparr>)"

definition get_rb_positions :: "'a coords_adaptor \<Rightarrow> error + 'a list" where
  "get_rb_positions ca = view (ca_coords ca) 0 (3 * ca_nrigid ca)"

definition get_rb_rotations :: "'a coords_adaptor \<Rightarrow> error + 'a list" where
  "get_rb_rotations ca = view (ca_coords ca) (3 * ca_nrigid ca) (6 * ca_nrigid ca)"

definition ca_write :: "'a coords_adaptor \<Rightarrow> nat \<Rightarrow> 'a list \<Rightarrow> 'a coords_adaptor" where
  "ca_write ca ibegin ys = ca\<lparr>ca_coords := assign_view (ca_coords ca) ibegin ys\<rparr>"

section \<open>Rigid-body topology\<close>

text \<open>
  Modelled from the spec: the class declaration, \<^verbatim>\<open>finalize\<close>, \<^verbatim>\<open>nrigid\<close> and
  \<^verbatim>\<open>get_coords_adaptor\<close> are in \<^verbatim>\<open>pele/aatopology.h\<close>, which is not part of the sources.
  A topology owns its sites and a count of non-rigid atoms, and caches the total atom
  count, \<open>sum(site.natoms) + non_rigid_atom_count\<close>, which \<^verbatim>\<open>finalize\<close> computes.
\<close>

record 'a rb_topology =
  sites :: "'a rigid_fragment list"
  number_of_non_rigid_atoms :: nat
  natoms_total :: nat

definition nrigid :: "'a rb_topology \<Rightarrow> nat" where
  "nrigid t = length (sites t)"

definition finalize :: "'a rb_topology \<Rightarrow> 'a rb_topology" where
  "finalize t = t\<lparr>natoms_total := sum_list (map natoms (sites t)) + number_of_non_rigid_atoms t\<rparr>"

definition get_coords_adaptor :: "'a rb_topology \<Rightarrow> 'a list \<Rightarrow> error + 'a coords_adaptor" where
  "get_coords_adaptor t x = CoordsAdaptor (nrigid t) (number_of_non_rigid_atoms t) x"

text \<open>
  A \<^verbatim>\<open>for\<close> loop over the sites whose body can throw. \<open>for_sites\<close> is for a body that
  builds a result which is lost when it throws; \<open>for_sites_inplace\<close> is for a body that
  writes into a caller's array, whose contents at the time of the exception remain.
\<close>

fun for_sites :: "(nat \<Rightarrow> 's \<Rightarrow> error + 's) \<Rightarrow> nat list \<Rightarrow> 's \<Rightarrow> error + 's" where
  "for_sites body [] s = Inr s"
| "for_sites body (isite # rest) s =
     (case body isite s of Inl e \<Rightarrow> Inl e | Inr s' \<Rightarrow> for_sites body rest s')"

fun for_sites_inplace ::
  "(nat \<Rightarrow> 's \<Rightarrow> 's \<times> error option) \<Rightarrow> nat list \<Rightarrow> 's \<Rightarrow> 's \<times> error option" where
  "for_sites_inplace body [] s = (s, None)"
| "for_sites_inplace body (isite # rest) s =
     (case body isite s of
        (s', Some e) \<Rightarrow> (s', Some e)
      | (s', None) \<Rightarrow> for_sites_inplace body rest s')"

subsection \<open>\<^verbatim>\<open>RBTopology::to_atomistic\<close>\<close>

text \<open>
  The body of the loop, lines 97 to 105. The state is the array \<^verbatim>\<open>atomistic\<close> and
  \<^verbatim>\<open>istart\<close>.
\<close>

definition to_atomistic_site ::
  "('a vec3 \<Rightarrow> 'a matrix33) \<Rightarrow> 'a::{zero,plus,times} rigid_fragment list \<Rightarrow> 'a list \<Rightarrow> 'a list
     \<Rightarrow> nat \<Rightarrow> 'a list \<times> nat \<Rightarrow> error + ('a list \<times> nat)" where
  "to_atomistic_site aa_to_rot_mat ss rb_pos rb_rot isite st =
     (case st of (atomistic, istart) \<Rightarrow>
     (case view rb_rot (isite * 3) (isite * 3 + 3) of Inl e \<Rightarrow> Inl e | Inr psite \<Rightarrow>
     (case view rb_pos (isite * 3) (isite * 3 + 3) of Inl e \<Rightarrow> Inl e | Inr com \<Rightarrow>
     (case RigidFragment_to_atomistic aa_to_rot_mat (ss ! isite) com (vec3_of_array psite) of
        Inl e \<Rightarrow> Inl e
      | Inr site_atom_positions \<Rightarrow>
     (case view atomistic istart (istart + length site_atom_positions) of
        Inl e \<Rightarrow> Inl e
      | Inr atomistic_view \<Rightarrow>
          Inr (assign_view atomistic istart site_atom_positions,
               istart + length site_atom_positions))))))"

definition RBTopology_to_atomistic ::
  "('a vec3 \<Rightarrow> 'a matrix33) \<Rightarrow> 'a::{zero,plus,times} rb_topology \<Rightarrow> 'a list \<Rightarrow> error + 'a list" where
  "RBTopology_to_atomistic aa_to_rot_mat t0 rbcoords =
     (let t = (if natoms_total t0 = 0 then finalize t0 else t0) in
      if length rbcoords \<noteq> nrigid t * 6 then Inl InvalidArgument
      else
       (case CoordsAdaptor (length (sites t)) 0 rbcoords of Inl e \<Rightarrow> Inl e | Inr ca \<Rightarrow>
       (case get_rb_positions ca of Inl e \<Rightarrow> Inl e | Inr rb_pos \<Rightarrow>
       (case get_rb_rotations ca of Inl e \<Rightarrow> Inl e | Inr rb_rot \<Rightarrow>
       (case for_sites (to_atomistic_site aa_to_rot_mat (sites t) rb_pos rb_rot)
               [0..<length (sites t)] (replicate (3 * natoms_total t) 0, 0) of
          Inl e \<Rightarrow> Inl e
        | Inr (atomistic, istart) \<Rightarrow>
            if istart \<noteq> natoms_total t * 3 then Inl AssertionFailure else Inr atomistic)))))"

subsection \<open>\<^verbatim>\<open>RBTopology::transform_gradient\<close>\<close>

text \<open>
  The body of the loop, lines 137 to 144. The state is the adaptor of \<^verbatim>\<open>rbgrad\<close>, which
  holds the contents of \<^verbatim>\<open>rbgrad\<close>, and \<^verbatim>\<open>istart\<close>. \<^verbatim>\<open>g_com\<close> and \<^verbatim>\<open>g_rot\<close> alias the
  centre and the rotation block of \<^verbatim>\<open>rbgrad\<close>, so the model reads them from the current
  contents, and what the site's \<^verbatim>\<open>transform_grad\<close> stores in its two outputs is written
  to \<^verbatim>\<open>rbgrad\<close> at \<open>3 * isite\<close> and at \<open>3 * nrigid + 3 * isite\<close>. The three arrays
  are taken to be distinct.
\<close>

definition transform_gradient_site ::
  "('a vec3 \<Rightarrow> 'a matrix33 \<times> 'a matrix33 \<times> 'a matrix33 \<times> 'a matrix33)
     \<Rightarrow> 'a::{zero,plus,times} rigid_fragment list \<Rightarrow> 'a list \<Rightarrow> 'a list
     \<Rightarrow> nat \<Rightarrow> 'a coords_adaptor \<times> nat \<Rightarrow> ('a coords_adaptor \<times> nat) \<times> error option" where
  "transform_gradient_site rot_mat_derivatives ss grad coords_rot isite st =
     (case st of (rbgrad_ca, istart) \<Rightarrow>
      let site_ndof = natoms (ss ! isite) * 3 in
     (case view grad istart (istart + site_ndof) of Inl e \<Rightarrow> (st, Some e) | Inr g_site \<Rightarrow>
     (case view coords_rot (isite * 3) (isite * 3 + 3) of Inl e \<Rightarrow> (st, Some e) | Inr p \<Rightarrow>
     (case get_rb_positions rbgrad_ca of Inl e \<Rightarrow> (st, Some e) | Inr g_com \<Rightarrow>
     (case get_rb_rotations rbgrad_ca of Inl e \<Rightarrow> (st, Some e) | Inr g_rot \<Rightarrow>
     (case view g_com (isite * 3) (isite * 3 + 3) of Inl e \<Rightarrow> (st, Some e) | Inr g_com_site \<Rightarrow>
     (case view g_rot (isite * 3) (isite * 3 + 3) of Inl e \<Rightarrow> (st, Some e) | Inr g_rot_site \<Rightarrow>
     (case RigidFragment_transform_grad rot_mat_derivatives (ss ! isite) (vec3_of_array p) g_site
             (vec3_of_array g_com_site) (vec3_of_array g_rot_site) of
        Inl e \<Rightarrow> (st, Some e)
      | Inr (gc, gr) \<Rightarrow>
          let rbgrad_ca = ca_write rbgrad_ca (isite * 3) (array_of_vec3 gc);
              rbgrad_ca = ca_write rbgrad_ca (3 * ca_nrigid rbgrad_ca + isite * 3) (array_of_vec3 gr)
          in ((rbgrad_ca, istart + site_ndof), None)))))))))"

definition RBTopology_transform_gradient ::
  "('a vec3 \<Rightarrow> 'a matrix33 \<times> 'a matrix33 \<times> 'a matrix33 \<times> 'a matrix33)
     \<Rightarrow> 'a::{zero,plus,times} rb_topology \<Rightarrow> 'a list \<Rightarrow> 'a list \<Rightarrow> 'a list
     \<Rightarrow> 'a list \<times> error option" where
  "RBTopology_transform_gradient rot_mat_derivatives t0 rbcoords grad rbgrad =
     (let t = (if natoms_total t0 = 0 then finalize t0 else t0) in
      if length rbcoords \<noteq> nrigid t * 6 then (rbgrad, Some InvalidArgument)
      else if length grad \<noteq> natoms_total t * 3 then (rbgrad, Some InvalidArgument)
      else if length rbgrad \<noteq> length rbcoords then (rbgrad, Some InvalidArgument)
      else
       (case CoordsAdaptor (nrigid t) 0 rbcoords of Inl e \<Rightarrow> (rbgrad, Some e) | Inr ca \<Rightarrow>
       (case get_rb_rotations ca of Inl e \<Rightarrow> (rbgrad, Some e) | Inr coords_rot \<Rightarrow>
       (case CoordsAdaptor (nrigid t) 0 rbgrad of Inl e \<Rightarrow> (rbgrad, Some e) | Inr rbgrad_ca \<Rightarrow>
       (case get_rb_positions rbgrad_ca of Inl e \<Rightarrow> (rbgrad, Some e) | Inr g_com \<Rightarrow>
       (case get_rb_rotations rbgrad_ca of Inl e \<Rightarrow> (rbgrad, Some e) | Inr g_rot \<Rightarrow>
       (case for_sites_inplace (transform_gradient_site rot_mat_derivatives (sites t) grad coords_rot)
               [0..<nrigid t] (rbgrad_ca, 0) of
          ((rbgrad_ca', istart), err) \<Rightarrow> (ca_coords rbgrad_ca', err))))))))"

section \<open>Alignment of angle-axis vectors\<close>

text \<open>
  Modelled from the spec: the vector operations and \<^verbatim>\<open>norm<3>\<close> of \<^verbatim>\<open>pele/vecn.h\<close>, which
  is not part of the sources: componentwise sum, difference and scaling, and the
  Euclidean magnitude. \<^verbatim>\<open>M_PI\<close> is \<open>pi\<close> and \<^verbatim>\<open>1e-6\<close> is \<open>1 / 10 ^ 6\<close>.
\<close>

fun vec3_add :: "real vec3 \<Rightarrow> real vec3 \<Rightarrow> real vec3" where
  "vec3_add (Vec3 a b c) (Vec3 x y z) = Vec3 (a + x) (b + y) (c + z)"

fun vec3_sub :: "real vec3 \<Rightarrow> real vec3 \<Rightarrow> real vec3" where
  "vec3_sub (Vec3 a b c) (Vec3 x y z) = Vec3 (a - x) (b - y) (c - z)"

fun vec3_scale :: "real vec3 \<Rightarrow> real \<Rightarrow> real vec3" where
  "vec3_scale (Vec3 a b c) s = Vec3 (a * s) (b * s) (c * s)"

fun norm3 :: "real vec3 \<Rightarrow> real" where
  "norm3 (Vec3 a b c) = sqrt (a * a + b * b + c * c)"

text \<open>The scalar product, which the source does not use: the proofs compare distances with it.\<close>

fun vec3_dot :: "real vec3 \<Rightarrow> real vec3 \<Rightarrow> real" where
  "vec3_dot (Vec3 a b c) (Vec3 x y z) = a * x + b * y + c * z"

text \<open>
  Lines 154 to 163: the periodicity step \<^verbatim>\<open>n2\<close>, or \<open>None\<close> where the source returns
  \<^verbatim>\<open>p2\<close> at line 156.
\<close>

definition periodicity_step :: "real vec3 \<Rightarrow> real vec3 \<Rightarrow> real vec3 option" where
  "periodicity_step p1 p2 =
     (if norm3 p2 < 1 / 10 ^ 6 then
        (if norm3 p1 < 1 / 10 ^ 6 then None
         else Some (vec3_scale p1 (2 * pi / norm3 p1)))
      else Some (vec3_scale p2 (2 * pi / norm3 p2)))"

text \<open>
  The two \<^verbatim>\<open>while (true)\<close> loops, lines 165 to 172 and 174 to 181. A loop that never
  reaches its \<^verbatim>\<open>break\<close> has the value \<open>None\<close>.
\<close>

partial_function (option) align_add_loop :: "real vec3 \<Rightarrow> real vec3 \<Rightarrow> real vec3 \<Rightarrow> real vec3 option" where
  "align_add_loop p1 n2 p2 =
     (if norm3 (vec3_sub (vec3_add p2 n2) p1) > norm3 (vec3_sub p2 p1) then Some p2
      else align_add_loop p1 n2 (vec3_add p2 n2))"

partial_function (option) align_sub_loop :: "real vec3 \<Rightarrow> real vec3 \<Rightarrow> real vec3 \<Rightarrow> real vec3 option" where
  "align_sub_loop p1 n2 p2 =
     (if norm3 (vec3_sub (vec3_sub p2 n2) p1) > norm3 (vec3_sub p2 p1) then Some p2
      else align_sub_loop p1 n2 (vec3_sub p2 n2))"

definition align_angle_axis_vectors :: "real vec3 \<Rightarrow> real vec3 \<Rightarrow> real vec3 option" where
  "align_angle_axis_vectors p1 p2in =
     (case periodicity_step p1 p2in of
        None \<Rightarrow> Some p2in
      | Some n2 \<Rightarrow>
          (case align_add_loop p1 n2 p2in of
             None \<Rightarrow> None
           | Some p2 \<Rightarrow> align_sub_loop p1 n2 p2))"

section \<open>Cluster transform\<close>

text \<open>
  Modelled from the spec: \<^verbatim>\<open>transpose\<close> and \<^verbatim>\<open>hacky_mat_mul\<close> are in headers that are not
  part of the sources. \<^verbatim>\<open>hacky_mat_mul\<close> is the matrix product of the \<open>n \<times> 3\<close> centre
  block, a flat row-major array, with a \<open>3 \<times> 3\<close> matrix; the result is again flat.
\<close>

definition transpose3 :: "'a matrix33 \<Rightarrow> 'a matrix33" where
  "transpose3 mx = (\<lambda>i j. mx j i)"

definition hacky_mat_mul :: "'a::{zero,plus,times} list \<Rightarrow> 'a matrix33 \<Rightarrow> 'a list" where
  "hacky_mat_mul A B =
     concat (map (\<lambda>i. map (\<lambda>j. foldl (\<lambda>val k. val + A ! hacky_index 3 i k * B k j) 0 [0..<3]) [0..<3])
       [0..<length A div 3])"

text \<open>
  The body of the loop over the sites, lines 234 to 237. \<^verbatim>\<open>rb_rot\<close> aliases the rotation
  block of \<^verbatim>\<open>x\<close>, so the model reads it from the current contents. The rotation
  primitives \<^verbatim>\<open>rot_mat_to_aa\<close> and \<^verbatim>\<open>rotate_aa\<close> of \<^verbatim>\<open>pele/rotations.h\<close> are parameters.
\<close>

definition rotate_site ::
  "('a vec3 \<Rightarrow> 'a vec3 \<Rightarrow> 'a vec3) \<Rightarrow> 'a vec3 \<Rightarrow> nat \<Rightarrow> 'a coords_adaptor
     \<Rightarrow> 'a coords_adaptor \<times> error option" where
  "rotate_site rotate_aa dp isite ca =
     (case get_rb_rotations ca of Inl e \<Rightarrow> (ca, Some e) | Inr rb_rot \<Rightarrow>
     (case view rb_rot (isite * 3) (isite * 3 + 3) of Inl e \<Rightarrow> (ca, Some e) | Inr pview \<Rightarrow>
        let p = rotate_aa (vec3_of_array pview) dp
        in (ca_write ca (3 * ca_nrigid ca + isite * 3) (array_of_vec3 p), None)))"

text \<open>Lines 218 to 238, the branch taken when the topology has rigid bodies.\<close>

definition rotate_rigid_bodies ::
  "('a matrix33 \<Rightarrow> 'a vec3) \<Rightarrow> ('a vec3 \<Rightarrow> 'a vec3 \<Rightarrow> 'a vec3) \<Rightarrow> nat
     \<Rightarrow> 'a::{zero,plus,times} coords_adaptor \<Rightarrow> 'a matrix33 \<Rightarrow> 'a coords_adaptor \<times> error option" where
  "rotate_rigid_bodies rot_mat_to_aa rotate_aa n ca mx =
     (case get_rb_positions ca of Inl e \<Rightarrow> (ca, Some e) | Inr rb_pos \<Rightarrow>
      let mxT = transpose3 mx in
      if mxT 0 1 \<noteq> mx 1 0 then (ca, Some AssertionFailure)
      else
        let result = hacky_mat_mul rb_pos mxT;
            ca = ca_write ca 0 result;
            dp = rot_mat_to_aa mx
        in (case get_rb_rotations ca of Inl e \<Rightarrow> (ca, Some e) | Inr rb_rot \<Rightarrow>
              for_sites_inplace (rotate_site rotate_aa dp) [0..<n] ca))"

definition TransformAACluster_rotate ::
  "('a matrix33 \<Rightarrow> 'a vec3) \<Rightarrow> ('a vec3 \<Rightarrow> 'a vec3 \<Rightarrow> 'a vec3) \<Rightarrow> 'a::{zero,plus,times} rb_topology
     \<Rightarrow> 'a list \<Rightarrow> 'a matrix33 \<Rightarrow> 'a list \<times> error option" where
  "TransformAACluster_rotate rot_mat_to_aa rotate_aa m_topology x mx =
     (case get_coords_adaptor m_topology x of Inl e \<Rightarrow> (x, Some e) | Inr ca \<Rightarrow>
     (case (if nrigid m_topology > 0
            then rotate_rigid_bodies rot_mat_to_aa rotate_aa (nrigid m_topology) ca mx
            else (ca, None)) of
        (ca, Some e) \<Rightarrow> (ca_coords ca, Some e)
      | (ca, None) \<Rightarrow>
          if number_of_non_rigid_atoms m_topology > 0 then (ca_coords ca, Some RuntimeError)
          else (ca_coords ca, None)))"

section \<open>Properties\<close>

subsection \<open>Indices, sums and loops\<close>

lemma upt_3: "[0..<3] = [0, 1, 2]"
  by (simp add: upt_rec)

lemma upt_3_Suc: "[0..<3 * Suc n] = [0..<3 * n] @ [3 * n, 3 * n + 1, 3 * n + 2]"
proof -
  have "3 * Suc n = Suc (Suc (Suc (3 * n)))" by simp
  then show ?thesis by (simp only: upt_Suc) simp
qed

lemma all_less_3: "(\<forall>k<3. P k) \<longleftrightarrow> P 0 \<and> P 1 \<and> P (2 :: nat)"
  by (auto simp: numeral_3_eq_3 numeral_2_eq_2 less_Suc_eq)

lemma foldl_add_upt:
  fixes h :: "nat \<Rightarrow> 'a::comm_monoid_add"
  shows "foldl (\<lambda>val i. val + h i) a [0..<n] = a + (\<Sum>i<n. h i)"
  by (induction n) (simp_all add: add.assoc)

lemma sum_list_take_le:
  fixes xs :: "nat list"
  shows "sum_list (take k xs) \<le> sum_list xs"
proof -
  have "sum_list xs = sum_list (take k xs) + sum_list (drop k xs)"
    by (metis append_take_drop_id sum_list_append)
  then show ?thesis by simp
qed

lemma sum_list_take_Suc:
  fixes xs :: "nat list"
  shows "k < length xs \<Longrightarrow> sum_list (take (Suc k) xs) = sum_list (take k xs) + xs ! k"
  by (simp add: take_Suc_conv_app_nth)

lemma for_sites_append:
  "for_sites body (xs @ ys) s =
     (case for_sites body xs s of Inl e \<Rightarrow> Inl e | Inr s' \<Rightarrow> for_sites body ys s')"
  by (induction xs arbitrary: s) (auto split: sum.splits)

lemma for_sites_inplace_append:
  "for_sites_inplace body (xs @ ys) s =
     (case for_sites_inplace body xs s of
        (s', Some e) \<Rightarrow> (s', Some e)
      | (s', None) \<Rightarrow> for_sites_inplace body ys s')"
  by (induction xs arbitrary: s) (auto split: prod.splits option.splits)

subsection \<open>Views and writes through views\<close>

lemma view_Inr: "ibegin \<le> iend \<Longrightarrow> iend \<le> length xs \<Longrightarrow> view xs ibegin iend = Inr (take (iend - ibegin) (drop ibegin xs))"
  by (simp add: view_def)

lemma vec3_of_array_slice:
  "k + 3 \<le> length xs \<Longrightarrow> vec3_of_array (take 3 (drop k xs)) = vec3_at xs k"
  by (simp add: vec3_of_array_def vec3_at_def)

lemma length_assign_view:
  "ibegin + length ys \<le> length xs \<Longrightarrow> length (assign_view xs ibegin ys) = length xs"
  by (simp add: assign_view_def)

lemma nth_assign_view:
  "ibegin + length ys \<le> length xs \<Longrightarrow> i < length xs \<Longrightarrow>
   assign_view xs ibegin ys ! i =
     (if ibegin \<le> i \<and> i < ibegin + length ys then ys ! (i - ibegin) else xs ! i)"
  by (auto simp: assign_view_def nth_append)

lemma assign_view_append:
  "assign_view (pre @ rest) (length pre) blk = pre @ blk @ drop (length blk) rest"
  by (simp add: assign_view_def)

lemma length_array_of_vec3: "length (array_of_vec3 v) = 3"
  by (cases v) simp

lemma vec3_at_array_of_vec3: "vec3_at (array_of_vec3 v) 0 = v"
  by (cases v) (simp add: vec3_at_def)

lemma vec3_at_assign_view_same:
  "k + 3 \<le> length xs \<Longrightarrow> vec3_at (assign_view xs k (array_of_vec3 v)) k = v"
  by (cases v) (simp add: vec3_at_def nth_assign_view)

lemma vec3_at_assign_view_other:
  "k + 3 \<le> length xs \<Longrightarrow> j + 3 \<le> length xs \<Longrightarrow> j + 3 \<le> k \<or> k + 3 \<le> j \<Longrightarrow>
   vec3_at (assign_view xs k (array_of_vec3 v)) j = vec3_at xs j"
  by (cases v) (auto simp: vec3_at_def nth_assign_view)

subsection \<open>Rigid fragment: the forward map\<close>

lemma to_atomistic_val_sum:
  fixes rmat :: "'a::semiring_0 matrix33"
  shows "to_atomistic_val rmat f com atom j =
    com ! j + (\<Sum>k<3. rmat j k * atom_positions f ! (3 * atom + k))"
  by (simp add: to_atomistic_val_def atom_positions_matrix_def hacky_index_def ndim_def upt_3
      numeral_3_eq_3 add.assoc mult.commute [of _ "3::nat"])

text \<open>Filling rows of three entries, row by row, overwrites the first \<open>3 * n\<close> entries.\<close>

lemma length_fill_rows:
  "length (foldl (\<lambda>pos atom. foldl (\<lambda>pos j. pos[hacky_index 3 atom j := F atom j]) pos [0..<3]) pos [0..<n]) = length pos"
  by (induction n) (simp_all add: upt_3)

lemma nth_fill_rows:
  "i < length pos \<Longrightarrow>
   foldl (\<lambda>pos atom. foldl (\<lambda>pos j. pos[hacky_index 3 atom j := F atom j]) pos [0..<3]) pos [0..<n] ! i
   = (if i < 3 * n then F (i div 3) (i mod 3) else pos ! i)"
proof (induction n)
  case 0
  then show ?case by simp
next
  case (Suc n)
  let ?fill = "\<lambda>n. foldl (\<lambda>pos atom. foldl (\<lambda>pos j. pos[hacky_index 3 atom j := F atom j]) pos [0..<3]) pos [0..<n]"
  have step: "?fill (Suc n) = (?fill n)[3 * n := F n 0, 3 * n + 1 := F n 1, 3 * n + 2 := F n 2]"
    by (simp add: upt_3 hacky_index_def mult.commute)
  have cases: "i < 3 * n \<or> i = 3 * n \<or> i = 3 * n + 1 \<or> i = 3 * n + 2 \<or> 3 * Suc n \<le> i" by arith
  have dm: "Suc (3 * n) div 3 = n" "Suc (Suc (3 * n)) div 3 = n"
    "Suc (3 * n) mod 3 = 1" "Suc (Suc (3 * n)) mod 3 = 2"
    by presburger+
  from cases show ?case
    using Suc unfolding step by (auto simp: length_fill_rows nth_list_update dm)
qed

lemma RigidFragment_to_atomistic_eq:
  fixes f :: "'a::{zero,plus,times} rigid_fragment"
  assumes "fragment_ok f" and "length com = 3"
  shows "RigidFragment_to_atomistic aa_to_rot_mat f com p =
    Inr (map (\<lambda>i. to_atomistic_val (aa_to_rot_mat p) f com (i div 3) (i mod 3)) [0..<3 * natoms f])"
  using assms
  by (auto simp: RigidFragment_to_atomistic_def Let_def ndim_def fragment_ok_def
      length_fill_rows nth_fill_rows intro!: nth_equalityI)

text \<open>
  Claim C1. For a fragment with body-frame positions \<open>q\<close>, a centre of three entries and a
  rotation, \<^verbatim>\<open>RigidFragment::to_atomistic\<close> returns a new array of \<open>3 * natoms\<close> entries
  whose entry \<open>j\<close> of atom block \<open>i\<close> is \<open>center[j] + \<Sum>k. R(j,k) * q[i,k]\<close>, with
  \<open>R\<close> the matrix the rotation primitive gives for the rotation: the contraction runs over
  the second index of \<open>R\<close>. The function is pure: it has no state to change.
\<close>

theorem RigidFragment_to_atomistic_correct:
  fixes f :: "'a::semiring_0 rigid_fragment"
  assumes "fragment_ok f" and "length center = 3"
  shows "\<exists>pos. RigidFragment_to_atomistic aa_to_rot_mat f center rotation = Inr pos
     \<and> length pos = 3 * natoms f
     \<and> (\<forall>i<natoms f. \<forall>j<3. pos ! (3 * i + j) =
           center ! j + (\<Sum>k<3. aa_to_rot_mat rotation j k * atom_positions f ! (3 * i + k)))"
proof -
  have "3 * i + j < 3 * natoms f \<and> (3 * i + j) div 3 = i \<and> (3 * i + j) mod 3 = j"
    if "i < natoms f" "j < 3" for i j
    using that by auto
  then show ?thesis
    by (simp add: RigidFragment_to_atomistic_eq [OF assms] to_atomistic_val_sum)
qed

theorem RigidFragment_to_atomistic_correct_witness:
  "RigidFragment_to_atomistic (\<lambda>p i j. [[0, - 1, 0], [1, 0, 0], [0, 0, 1]] ! i ! j)
     \<lparr>atom_positions = [1, 0, 0, 0, 2, 0 :: real]\<rparr> [10, 20, 30] (Vec3 0 0 0)
   = Inr [10, 21, 30, 8, 20, 30]"
proof -
  let ?R = "\<lambda>(p :: real vec3) i j. [[0, - 1, 0], [1, 0, 0], [0, 0, 1 :: real]] ! i ! j"
  let ?f = "\<lparr>atom_positions = [1, 0, 0, 0, 2, 0 :: real]\<rparr>"
  have n: "natoms ?f = 2" by (simp add: natoms_def ndim_def)
  have ok: "fragment_ok ?f" by (simp add: fragment_ok_def n ndim_def)
  have c: "length [10, 20, 30 :: real] = 3" by simp
  from RigidFragment_to_atomistic_correct [OF ok c, of ?R "Vec3 0 0 0"]
  obtain pos where r: "RigidFragment_to_atomistic ?R ?f [10, 20, 30] (Vec3 0 0 0) = Inr pos"
    and len: "length pos = 6"
    and nth: "\<And>i j. i < 2 \<Longrightarrow> j < 3 \<Longrightarrow> pos ! (3 * i + j) =
           [10, 20, 30] ! j + (\<Sum>k<3. ?R (Vec3 0 0 0) j k * atom_positions ?f ! (3 * i + k))"
    unfolding n by auto
  from len obtain a b c d e g where shape: "pos = [a, b, c, d, e, g]"
    by (auto simp: length_Suc_conv eval_nat_numeral)
  have "pos = [10, 21, 30, 8, 20, 30]"
    using nth [of 0 0] nth [of 0 1] nth [of 0 2] nth [of 1 0] nth [of 1 1] nth [of 1 2]
    by (simp add: shape numeral_3_eq_3)
  with r show ?thesis by simp
qed

subsection \<open>Rigid fragment: the gradient map\<close>

lemma g_com_val_sum:
  fixes g :: "'a::semiring_0 list"
  shows "g_com_val f g k = (\<Sum>atom<natoms f. g ! (3 * atom + k))"
  by (simp add: g_com_val_def foldl_add_upt hacky_index_def mult.commute [of _ "3::nat"])

lemma g_rot_val_sum:
  fixes g :: "'a::semiring_0 list"
  shows "g_rot_val drm f g atom =
    (\<Sum>i<3. \<Sum>j<3. g ! (3 * atom + i) * drm i j * atom_positions f ! (3 * atom + j))"
proof -
  have "g_rot_val drm f g atom =
      foldl (\<lambda>val i. val + (\<Sum>j<3. g ! (3 * atom + i) * drm i j * atom_positions f ! (3 * atom + j)))
        0 [0..<3]"
    by (simp add: g_rot_val_def foldl_add_upt atom_positions_matrix_def hacky_index_def ndim_def
        mult.commute [of _ "3::nat"])
  then show ?thesis by (simp add: foldl_add_upt)
qed

lemma g_com_loop:
  "foldl (\<lambda>g_com k. vec3_set g_com k (F k)) g_com [0..<3] = Vec3 (F 0) (F 1) (F 2)"
  by (cases g_com) (simp add: upt_3)

lemma g_rot_atom_Vec3:
  "g_rot_atom drm1 drm2 drm3 f g (Vec3 a b c) atom =
     Vec3 (a + g_rot_val drm1 f g atom) (b + g_rot_val drm2 f g atom) (c + g_rot_val drm3 f g atom)"
  by (simp add: g_rot_atom_def)

lemma g_rot_loop:
  fixes g :: "'a::semiring_0 list"
  shows "foldl (g_rot_atom drm1 drm2 drm3 f g) (Vec3 0 0 0) [0..<n]
     = Vec3 (\<Sum>atom<n. g_rot_val drm1 f g atom) (\<Sum>atom<n. g_rot_val drm2 f g atom)
         (\<Sum>atom<n. g_rot_val drm3 f g atom)"
  by (induction n) (simp_all add: g_rot_atom_Vec3)

lemma RigidFragment_transform_grad_eq:
  fixes f :: "'a::semiring_0 rigid_fragment"
  assumes "length g = 3 * natoms f"
    and "rot_mat_derivatives p = (rmat, drm1, drm2, drm3)"
  shows "RigidFragment_transform_grad rot_mat_derivatives f p g g_com g_rot =
    Inr (Vec3 (g_com_val f g 0) (g_com_val f g 1) (g_com_val f g 2),
         Vec3 (\<Sum>atom<natoms f. g_rot_val drm1 f g atom) (\<Sum>atom<natoms f. g_rot_val drm2 f g atom)
           (\<Sum>atom<natoms f. g_rot_val drm3 f g atom))"
  using assms
  by (cases g_rot) (simp add: RigidFragment_transform_grad_def g_com_loop g_rot_loop)

lemma RigidFragment_transform_grad_returns:
  "length g = natoms f * 3 \<Longrightarrow>
   \<exists>gc gr. RigidFragment_transform_grad rot_mat_derivatives f p g g_com g_rot = Inr (gc, gr)"
  by (simp add: RigidFragment_transform_grad_def split: prod.splits)

text \<open>
  Claim C2. For a fragment, a rotation \<open>p\<close> and an atomistic gradient \<open>g\<close> of
  \<open>3 * natoms\<close> entries, \<^verbatim>\<open>RigidFragment::transform_grad\<close> sets entry \<open>k\<close> of the centre
  gradient to the sum over the atoms of \<open>g[atom,k]\<close>, and entry \<open>m\<close> of the rotation
  gradient to the sum over the atoms, \<open>i\<close> and \<open>j\<close> of
  \<open>g[atom,i] * dR/dp_m(i,j) * atom_position[atom,j]\<close>, with the three derivative matrices
  of the rotation primitive. Neither depends on what the two outputs held before the call:
  the rotation gradient is reset to zero before the accumulation.
\<close>

theorem RigidFragment_transform_grad_correct:
  fixes f :: "'a::semiring_0 rigid_fragment"
  assumes "length g = 3 * natoms f"
    and "rot_mat_derivatives p = (rmat, drm1, drm2, drm3)"
  shows "\<exists>center_gradient rotation_gradient.
      RigidFragment_transform_grad rot_mat_derivatives f p g g_com g_rot
        = Inr (center_gradient, rotation_gradient)
    \<and> (\<forall>k<3. vec3_get center_gradient k = (\<Sum>atom<natoms f. g ! (3 * atom + k)))
    \<and> (\<forall>m<3. vec3_get rotation_gradient m =
          (\<Sum>atom<natoms f. \<Sum>i<3. \<Sum>j<3.
             g ! (3 * atom + i) * ([drm1, drm2, drm3] ! m) i j * atom_positions f ! (3 * atom + j)))"
proof -
  have "RigidFragment_transform_grad rot_mat_derivatives f p g g_com g_rot =
    Inr (Vec3 (g_com_val f g 0) (g_com_val f g 1) (g_com_val f g 2),
         Vec3 (\<Sum>atom<natoms f. g_rot_val drm1 f g atom) (\<Sum>atom<natoms f. g_rot_val drm2 f g atom)
           (\<Sum>atom<natoms f. g_rot_val drm3 f g atom))"
    using assms by (rule RigidFragment_transform_grad_eq)
  then show ?thesis
    by (simp add: all_less_3 g_com_val_sum g_rot_val_sum)
qed

theorem RigidFragment_transform_grad_correct_witness:
  "RigidFragment_transform_grad
     (\<lambda>p. (\<lambda>i j. if i = j then 1 else 0,
            \<lambda>i j. if i = 0 \<and> j = 1 then 1 else 0,
            \<lambda>i j. if i = 1 \<and> j = 0 then 1 else 0,
            \<lambda>i j. if i = j then 1 else 0))
     \<lparr>atom_positions = [1, 0, 0, 0, 2, 0 :: real]\<rparr> (Vec3 0 0 0) [1, 2, 3, 4, 5, 6]
     (Vec3 100 100 100) (Vec3 100 100 100)
   = Inr (Vec3 5 7 9, Vec3 8 2 11)"
proof -
  let ?I = "\<lambda>(i :: nat) (j :: nat). if i = j then 1 else (0 :: real)"
  let ?D1 = "\<lambda>(i :: nat) (j :: nat). if i = 0 \<and> j = 1 then 1 else (0 :: real)"
  let ?D2 = "\<lambda>(i :: nat) (j :: nat). if i = 1 \<and> j = 0 then 1 else (0 :: real)"
  let ?rmd = "\<lambda>p :: real vec3. (?I, ?D1, ?D2, ?I)"
  let ?f = "\<lparr>atom_positions = [1, 0, 0, 0, 2, 0 :: real]\<rparr>"
  let ?g = "[1, 2, 3, 4, 5, 6 :: real]"
  have n: "natoms ?f = 2" by (simp add: natoms_def ndim_def)
  have len: "length ?g = 3 * natoms ?f" by (simp add: n)
  have d: "?rmd (Vec3 0 0 0) = (?I, ?D1, ?D2, ?I)" by simp
  from RigidFragment_transform_grad_correct [of ?g ?f ?rmd "Vec3 0 0 0", OF len d,
      of "Vec3 100 100 100" "Vec3 100 100 100"]
  obtain gc gr where r: "RigidFragment_transform_grad ?rmd ?f (Vec3 0 0 0) ?g
        (Vec3 100 100 100) (Vec3 100 100 100) = Inr (gc, gr)"
    and c: "\<And>k. k < 3 \<Longrightarrow> vec3_get gc k = (\<Sum>atom<2. ?g ! (3 * atom + k))"
    and m: "\<And>m. m < 3 \<Longrightarrow> vec3_get gr m = (\<Sum>atom<2. \<Sum>i<3. \<Sum>j<3.
             ?g ! (3 * atom + i) * ([?D1, ?D2, ?I] ! m) i j * atom_positions ?f ! (3 * atom + j))"
    unfolding n by auto
  have "gc = Vec3 5 7 9"
    using c [of 0] c [of 1] c [of 2] by (cases gc) (simp add: numeral_2_eq_2)
  moreover have "gr = Vec3 8 2 11"
    using m [of 0] m [of 1] m [of 2] by (cases gr) (simp add: numeral_2_eq_2 numeral_3_eq_3)
  ultimately show ?thesis using r by simp
qed

subsection \<open>Topology: the forward map\<close>

lemma to_atomistic_site_ok:
  fixes ss :: "'a::{zero,plus,times} rigid_fragment list"
  assumes "isite < n" and "length rb_pos = 3 * n" and "length rb_rot = 3 * n"
    and "fragment_ok (ss ! isite)"
    and "istart + 3 * natoms (ss ! isite) \<le> length atomistic"
  shows "\<exists>blk. RigidFragment_to_atomistic aa_to_rot_mat (ss ! isite)
             (take 3 (drop (3 * isite) rb_pos)) (vec3_at rb_rot (3 * isite)) = Inr blk
     \<and> length blk = 3 * natoms (ss ! isite)
     \<and> to_atomistic_site aa_to_rot_mat ss rb_pos rb_rot isite (atomistic, istart)
         = Inr (assign_view atomistic istart blk, istart + 3 * natoms (ss ! isite))"
proof -
  let ?com = "take 3 (drop (3 * isite) rb_pos)"
  have com: "length ?com = 3" using assms by simp
  let ?blk = "map (\<lambda>i. to_atomistic_val (aa_to_rot_mat (vec3_at rb_rot (3 * isite))) (ss ! isite) ?com
      (i div 3) (i mod 3)) [0..<3 * natoms (ss ! isite)]"
  have run: "RigidFragment_to_atomistic aa_to_rot_mat (ss ! isite) ?com (vec3_at rb_rot (3 * isite)) = Inr ?blk"
    using assms(4) com by (rule RigidFragment_to_atomistic_eq)
  have p: "vec3_of_array (take 3 (drop (3 * isite) rb_rot)) = vec3_at rb_rot (3 * isite)"
    using assms by (simp add: vec3_of_array_def vec3_at_def mult.commute)
  have "to_atomistic_site aa_to_rot_mat ss rb_pos rb_rot isite (atomistic, istart)
         = Inr (assign_view atomistic istart ?blk, istart + 3 * natoms (ss ! isite))"
    using assms
    by (simp add: to_atomistic_site_def view_Inr p mult.commute [of isite 3] run)
  with run show ?thesis by simp
qed

lemma to_atomistic_loop_ok:
  fixes ss :: "'a::{zero,plus,times} rigid_fragment list"
  assumes "length rb_pos = 3 * length ss" and "length rb_rot = 3 * length ss"
    and "\<forall>f\<in>set ss. fragment_ok f"
    and "3 * sum_list (map natoms ss) \<le> length a0" and "k \<le> length ss"
  shows "\<exists>blocks. length blocks = k
     \<and> (\<forall>i<k. RigidFragment_to_atomistic aa_to_rot_mat (ss ! i)
             (take 3 (drop (3 * i) rb_pos)) (vec3_at rb_rot (3 * i)) = Inr (blocks ! i))
     \<and> length (concat blocks) = 3 * sum_list (take k (map natoms ss))
     \<and> for_sites (to_atomistic_site aa_to_rot_mat ss rb_pos rb_rot) [0..<k] (a0, 0)
         = Inr (concat blocks @ drop (3 * sum_list (take k (map natoms ss))) a0,
                3 * sum_list (take k (map natoms ss)))"
  using assms(5)
proof (induction k)
  case 0
  then show ?case by simp
next
  case (Suc k)
  let ?S = "sum_list (take k (map natoms ss))"
  from Suc obtain blocks where len: "length blocks = k"
    and each: "\<And>i. i < k \<Longrightarrow> RigidFragment_to_atomistic aa_to_rot_mat (ss ! i)
             (take 3 (drop (3 * i) rb_pos)) (vec3_at rb_rot (3 * i)) = Inr (blocks ! i)"
    and lenc: "length (concat blocks) = 3 * ?S"
    and loop: "for_sites (to_atomistic_site aa_to_rot_mat ss rb_pos rb_rot) [0..<k] (a0, 0)
         = Inr (concat blocks @ drop (3 * ?S) a0, 3 * ?S)"
    by auto
  have k: "k < length ss" using Suc.prems by simp
  have ok: "fragment_ok (ss ! k)" using assms(3) k by simp
  have next_sum: "sum_list (take (Suc k) (map natoms ss)) = ?S + natoms (ss ! k)"
    using k by (simp add: sum_list_take_Suc)
  have "sum_list (take (Suc k) (map natoms ss)) \<le> sum_list (map natoms ss)"
    by (rule sum_list_take_le)
  then have room: "3 * ?S + 3 * natoms (ss ! k) \<le> length a0"
    using assms(4) next_sum by simp
  let ?cur = "concat blocks @ drop (3 * ?S) a0"
  have "3 * ?S + 3 * natoms (ss ! k) \<le> length ?cur"
    using room lenc by simp
  from to_atomistic_site_ok [OF k assms(1) assms(2) ok this, of aa_to_rot_mat]
  obtain blk where run: "RigidFragment_to_atomistic aa_to_rot_mat (ss ! k)
             (take 3 (drop (3 * k) rb_pos)) (vec3_at rb_rot (3 * k)) = Inr blk"
    and lenb: "length blk = 3 * natoms (ss ! k)"
    and step: "to_atomistic_site aa_to_rot_mat ss rb_pos rb_rot k (?cur, 3 * ?S)
         = Inr (assign_view ?cur (3 * ?S) blk, 3 * ?S + 3 * natoms (ss ! k))"
    by blast
  have written: "assign_view ?cur (3 * ?S) blk
      = concat (blocks @ [blk]) @ drop (3 * sum_list (take (Suc k) (map natoms ss))) a0"
    using assign_view_append [of "concat blocks" "drop (3 * ?S) a0" blk]
    by (simp add: lenc lenb next_sum add.commute distrib_left)
  have 1: "length (blocks @ [blk]) = Suc k" using len by simp
  have 2: "\<forall>i<Suc k. RigidFragment_to_atomistic aa_to_rot_mat (ss ! i)
             (take 3 (drop (3 * i) rb_pos)) (vec3_at rb_rot (3 * i)) = Inr ((blocks @ [blk]) ! i)"
    using each run len by (auto simp: less_Suc_eq nth_append)
  have 3: "length (concat (blocks @ [blk])) = 3 * sum_list (take (Suc k) (map natoms ss))"
    using lenc lenb next_sum by simp
  have 4: "for_sites (to_atomistic_site aa_to_rot_mat ss rb_pos rb_rot) [0..<Suc k] (a0, 0)
         = Inr (concat (blocks @ [blk]) @ drop (3 * sum_list (take (Suc k) (map natoms ss))) a0,
                3 * sum_list (take (Suc k) (map natoms ss)))"
    using written by (simp add: for_sites_append loop step next_sum)
  from 1 2 3 4 show ?case by blast
qed

text \<open>
  Claim C3, as amended. For a finalized topology that has no non-rigid atoms and whose
  fragments hold whole points, and \<open>rbcoords\<close> of \<open>6 * nrigid\<close> entries,
  \<^verbatim>\<open>RBTopology::to_atomistic\<close> returns a new array of \<open>3 * natoms_total\<close> entries: the
  concatenation, in the storage order of the sites, of what each site's own
  \<^verbatim>\<open>to_atomistic\<close> returns for slot \<open>i\<close> of the centre block and slot \<open>i\<close> of the rotation
  block. For \<open>rbcoords\<close> of any other length, and any topology, it fails with the
  invalid-argument error.
\<close>

theorem RBTopology_to_atomistic_concat:
  fixes t :: "'a::{zero,plus,times} rb_topology"
  shows "((\<forall>f\<in>set (sites t). fragment_ok f)
        \<and> number_of_non_rigid_atoms t = 0
        \<and> natoms_total t = sum_list (map natoms (sites t)) + number_of_non_rigid_atoms t
        \<and> length rbcoords = 6 * nrigid t
      \<longrightarrow> (\<exists>blocks. length blocks = nrigid t
            \<and> (\<forall>i<nrigid t. RigidFragment_to_atomistic aa_to_rot_mat (sites t ! i)
                   (take 3 (drop (3 * i) rbcoords)) (vec3_at rbcoords (3 * nrigid t + 3 * i))
                 = Inr (blocks ! i))
            \<and> RBTopology_to_atomistic aa_to_rot_mat t rbcoords = Inr (concat blocks)
            \<and> length (concat blocks) = 3 * natoms_total t))
    \<and> (length rbcoords \<noteq> 6 * nrigid t
      \<longrightarrow> RBTopology_to_atomistic aa_to_rot_mat t rbcoords = Inl InvalidArgument)"
proof (intro conjI impI)
  assume "length rbcoords \<noteq> 6 * nrigid t"
  then show "RBTopology_to_atomistic aa_to_rot_mat t rbcoords = Inl InvalidArgument"
    by (simp add: RBTopology_to_atomistic_def Let_def nrigid_def finalize_def mult.commute)
next
  assume h: "(\<forall>f\<in>set (sites t). fragment_ok f)
        \<and> number_of_non_rigid_atoms t = 0
        \<and> natoms_total t = sum_list (map natoms (sites t)) + number_of_non_rigid_atoms t
        \<and> length rbcoords = 6 * nrigid t"
  let ?n = "length (sites t)"
  let ?rb_pos = "take (3 * ?n) rbcoords"
  let ?rb_rot = "drop (3 * ?n) rbcoords"
  let ?a0 = "replicate (3 * natoms_total t) (0 :: 'a)"
  have fin: "(if natoms_total t = 0 then finalize t else t) = t"
    using h by (simp add: finalize_def)
  have len: "length rbcoords = 6 * ?n" using h by (simp add: nrigid_def)
  have total: "natoms_total t = sum_list (map natoms (sites t))" using h by simp
  have "length ?rb_pos = 3 * ?n" "length ?rb_rot = 3 * ?n" "\<forall>f\<in>set (sites t). fragment_ok f"
    "3 * sum_list (map natoms (sites t)) \<le> length ?a0" "?n \<le> ?n"
    using h len by simp_all
  from to_atomistic_loop_ok [OF this, of aa_to_rot_mat]
  obtain blocks where lenb: "length blocks = ?n"
    and each: "\<And>i. i < ?n \<Longrightarrow> RigidFragment_to_atomistic aa_to_rot_mat (sites t ! i)
             (take 3 (drop (3 * i) ?rb_pos)) (vec3_at ?rb_rot (3 * i)) = Inr (blocks ! i)"
    and lenc: "length (concat blocks) = 3 * natoms_total t"
    and loop: "for_sites (to_atomistic_site aa_to_rot_mat (sites t) ?rb_pos ?rb_rot) [0..<?n] (?a0, 0)
         = Inr (concat blocks, 3 * natoms_total t)"
    unfolding total by auto
  have run: "RBTopology_to_atomistic aa_to_rot_mat t rbcoords = Inr (concat blocks)"
    unfolding RBTopology_to_atomistic_def Let_def fin
    using len
    by (simp add: nrigid_def CoordsAdaptor_def get_rb_positions_def get_rb_rotations_def view_Inr loop)
  have slots: "take 3 (drop (3 * i) ?rb_pos) = take 3 (drop (3 * i) rbcoords)
      \<and> vec3_at ?rb_rot (3 * i) = vec3_at rbcoords (3 * ?n + 3 * i)" if "i < ?n" for i
  proof -
    have "take 3 (drop (3 * i) ?rb_pos) = take 3 (take (3 * ?n - 3 * i) (drop (3 * i) rbcoords))"
      by (simp add: drop_take)
    also have "\<dots> = take 3 (drop (3 * i) rbcoords)"
      using that by (simp add: min_def)
    finally show ?thesis
      using that len by (simp add: vec3_at_def add.assoc)
  qed
  have "\<forall>i<nrigid t. RigidFragment_to_atomistic aa_to_rot_mat (sites t ! i)
                   (take 3 (drop (3 * i) rbcoords)) (vec3_at rbcoords (3 * nrigid t + 3 * i))
                 = Inr (blocks ! i)"
    using each slots by (simp add: nrigid_def)
  with lenb run lenc
  show "\<exists>blocks. length blocks = nrigid t
            \<and> (\<forall>i<nrigid t. RigidFragment_to_atomistic aa_to_rot_mat (sites t ! i)
                   (take 3 (drop (3 * i) rbcoords)) (vec3_at rbcoords (3 * nrigid t + 3 * i))
                 = Inr (blocks ! i))
            \<and> RBTopology_to_atomistic aa_to_rot_mat t rbcoords = Inr (concat blocks)
            \<and> length (concat blocks) = 3 * natoms_total t"
    unfolding nrigid_def by blast
qed

theorem RBTopology_to_atomistic_concat_witness:
  "RBTopology_to_atomistic (\<lambda>p i j. if i = j then vec3_get p 0 else 0)
     \<lparr>sites = [\<lparr>atom_positions = [1, 0, 0 :: real]\<rparr>, \<lparr>atom_positions = [0, 1, 0, 0, 0, 1]\<rparr>],
      number_of_non_rigid_atoms = 0, natoms_total = 3\<rparr>
     [10, 0, 0, 20, 0, 0, 1, 0, 0, 2, 0, 0]
   = Inr [11, 0, 0, 20, 2, 0, 20, 0, 2]
   \<and> RBTopology_to_atomistic (\<lambda>p i j. if i = j then vec3_get p 0 else 0)
     \<lparr>sites = [\<lparr>atom_positions = [1, 0, 0 :: real]\<rparr>, \<lparr>atom_positions = [0, 1, 0, 0, 0, 1]\<rparr>],
      number_of_non_rigid_atoms = 0, natoms_total = 3\<rparr>
     [10, 0, 0, 20, 0, 0, 1, 0, 0, 2, 0]
   = Inl InvalidArgument"
proof -
  let ?aa = "\<lambda>(p :: real vec3) (i :: nat) (j :: nat). if i = j then vec3_get p 0 else 0"
  let ?f0 = "\<lparr>atom_positions = [1, 0, 0 :: real]\<rparr>"
  let ?f1 = "\<lparr>atom_positions = [0, 1, 0, 0, 0, 1 :: real]\<rparr>"
  let ?t = "\<lparr>sites = [?f0, ?f1], number_of_non_rigid_atoms = 0, natoms_total = 3\<rparr>"
  let ?x = "[10, 0, 0, 20, 0, 0, 1, 0, 0, 2, 0, 0 :: real]"
  let ?y = "[10, 0, 0, 20, 0, 0, 1, 0, 0, 2, 0 :: real]"
  have n: "nrigid ?t = 2" by (simp add: nrigid_def)
  have na: "natoms ?f0 = 1" "natoms ?f1 = 2" by (simp_all add: natoms_def ndim_def)
  have ok: "fragment_ok ?f0" "fragment_ok ?f1" by (simp_all add: fragment_ok_def na ndim_def)
  have h: "(\<forall>f\<in>set (sites ?t). fragment_ok f)
        \<and> number_of_non_rigid_atoms ?t = 0
        \<and> natoms_total ?t = sum_list (map natoms (sites ?t)) + number_of_non_rigid_atoms ?t
        \<and> length ?x = 6 * nrigid ?t"
    using ok by (simp add: na nrigid_def)
  have b0: "RigidFragment_to_atomistic ?aa ?f0 [10, 0, 0] (Vec3 1 0 0) = Inr [11, 0, 0]"
    by (simp add: RigidFragment_to_atomistic_eq ok na to_atomistic_val_def upt_rec ndim_def
        atom_positions_matrix_def hacky_index_def)
  have b1: "RigidFragment_to_atomistic ?aa ?f1 [20, 0, 0] (Vec3 2 0 0) = Inr [20, 2, 0, 20, 0, 2]"
    by (simp add: RigidFragment_to_atomistic_eq ok na to_atomistic_val_def upt_rec ndim_def
        atom_positions_matrix_def hacky_index_def)
  from RBTopology_to_atomistic_concat [of ?t ?x ?aa] h
  obtain blocks where len: "length blocks = 2"
    and each: "\<And>i. i < 2 \<Longrightarrow> RigidFragment_to_atomistic ?aa (sites ?t ! i)
                   (take 3 (drop (3 * i) ?x)) (vec3_at ?x (3 * 2 + 3 * i)) = Inr (blocks ! i)"
    and run: "RBTopology_to_atomistic ?aa ?t ?x = Inr (concat blocks)"
    unfolding n by blast
  from len obtain c0 c1 where shape: "blocks = [c0, c1]"
    by (auto simp: length_Suc_conv eval_nat_numeral)
  have "c0 = [11, 0, 0]" "c1 = [20, 2, 0, 20, 0, 2]"
    using each [of 0] each [of 1] b0 b1 by (simp_all add: shape vec3_at_def)
  then have first: "RBTopology_to_atomistic ?aa ?t ?x = Inr [11, 0, 0, 20, 2, 0, 20, 0, 2]"
    using run shape by simp
  have "length ?y \<noteq> 6 * nrigid ?t" by (simp add: n)
  with RBTopology_to_atomistic_concat [of ?t ?y ?aa]
  have "RBTopology_to_atomistic ?aa ?t ?y = Inl InvalidArgument" by blast
  with first show ?thesis by simp
qed

text \<open>
  Claim C3 as stated covers every finalized topology. A finalized topology with a
  non-rigid atom has \<open>natoms_total = sum(site.natoms) + non_rigid_atom_count\<close>, so the
  array allocated at line 92 is longer than the concatenation of the sites' blocks: the
  loop leaves \<open>istart = 3\<close> and an array of six entries whose last three were never
  written, and the assertion of line 107 fails. The function builds its adaptor for zero
  non-rigid atoms (line 89): non-rigid atoms are not supported here.
\<close>

theorem RBTopology_to_atomistic_non_rigid_counterexample:
  "finalize \<lparr>sites = [\<lparr>atom_positions = [1, 0, 0 :: real]\<rparr>], number_of_non_rigid_atoms = 1,
       natoms_total = 2\<rparr>
     = \<lparr>sites = [\<lparr>atom_positions = [1, 0, 0 :: real]\<rparr>], number_of_non_rigid_atoms = 1,
       natoms_total = 2\<rparr>
   \<and> RBTopology_to_atomistic (\<lambda>p i j. if i = j then 1 else 0)
       \<lparr>sites = [\<lparr>atom_positions = [1, 0, 0 :: real]\<rparr>], number_of_non_rigid_atoms = 1,
         natoms_total = 2\<rparr>
       [10, 0, 0, 0, 0, 0]
     = Inl AssertionFailure
   \<and> for_sites (to_atomistic_site (\<lambda>p i j. if i = j then 1 else 0)
         [\<lparr>atom_positions = [1, 0, 0 :: real]\<rparr>] [10, 0, 0] [0, 0, 0]) [0..<1]
       (replicate (3 * 2) 0, 0)
     = Inr ([11, 0, 0, 0, 0, 0], 3)"
proof -
  let ?f0 = "\<lparr>atom_positions = [1, 0, 0 :: real]\<rparr>"
  have na: "natoms ?f0 = 1" by (simp add: natoms_def ndim_def)
  have ok: "fragment_ok ?f0" by (simp add: fragment_ok_def na ndim_def)
  have b0: "RigidFragment_to_atomistic (\<lambda>p i j. if i = j then 1 else 0) ?f0 [10, 0, 0] (Vec3 0 0 0)
      = Inr [11, 0, 0]"
    by (simp add: RigidFragment_to_atomistic_eq ok na to_atomistic_val_def upt_rec ndim_def
        atom_positions_matrix_def hacky_index_def)
  show ?thesis
    by (simp add: finalize_def na RBTopology_to_atomistic_def nrigid_def CoordsAdaptor_def
        get_rb_positions_def get_rb_rotations_def view_def to_atomistic_site_def
        vec3_of_array_def vec3_at_def b0 assign_view_def eval_nat_numeral)
qed

subsection \<open>Topology: the gradient map\<close>

text \<open>One iteration of the gradient loop succeeds and keeps the size of the output array.\<close>

lemma transform_gradient_site_ok:
  assumes "isite < n" and "length coords_rot = 3 * n" and "length rbgrad = 6 * n"
    and "istart + natoms (ss ! isite) * 3 \<le> length grad"
  shows "\<exists>rbgrad'. transform_gradient_site rot_mat_derivatives ss grad coords_rot isite
            (\<lparr>ca_nrigid = n, ca_natoms = 0, ca_coords = rbgrad\<rparr>, istart)
          = ((\<lparr>ca_nrigid = n, ca_natoms = 0, ca_coords = rbgrad'\<rparr>, istart + natoms (ss ! isite) * 3), None)
       \<and> length rbgrad' = 6 * n"
proof -
  let ?g_site = "take (natoms (ss ! isite) * 3) (drop istart grad)"
  have "length ?g_site = natoms (ss ! isite) * 3" using assms by simp
  from RigidFragment_transform_grad_returns [OF this]
  obtain gc gr where tg: "RigidFragment_transform_grad rot_mat_derivatives (ss ! isite)
      (vec3_of_array (take 3 (drop (isite * 3) coords_rot))) ?g_site
      (vec3_of_array (take 3 (drop (isite * 3) (take (3 * n) rbgrad))))
      (vec3_of_array (take 3 (drop (isite * 3 + 3 * n) rbgrad))) = Inr (gc, gr)"
    by blast
  let ?r1 = "assign_view rbgrad (isite * 3) (array_of_vec3 gc)"
  let ?r2 = "assign_view ?r1 (3 * n + isite * 3) (array_of_vec3 gr)"
  have l1: "length ?r1 = 6 * n"
    using assms by (simp add: length_assign_view length_array_of_vec3)
  have l2: "length ?r2 = 6 * n"
    using assms l1 by (simp add: length_assign_view length_array_of_vec3)
  have "transform_gradient_site rot_mat_derivatives ss grad coords_rot isite
            (\<lparr>ca_nrigid = n, ca_natoms = 0, ca_coords = rbgrad\<rparr>, istart)
          = ((\<lparr>ca_nrigid = n, ca_natoms = 0, ca_coords = ?r2\<rparr>, istart + natoms (ss ! isite) * 3), None)"
    using assms
    by (simp add: transform_gradient_site_def Let_def view_Inr get_rb_positions_def
        get_rb_rotations_def tg ca_write_def)
  with l2 show ?thesis by blast
qed

lemma transform_gradient_loop_ok:
  assumes "length coords_rot = 3 * length ss" and "length rbgrad = 6 * length ss"
    and "3 * sum_list (map natoms ss) \<le> length grad" and "k \<le> length ss"
  shows "\<exists>rbgrad'. for_sites_inplace (transform_gradient_site rot_mat_derivatives ss grad coords_rot)
            [0..<k] (\<lparr>ca_nrigid = length ss, ca_natoms = 0, ca_coords = rbgrad\<rparr>, 0)
          = ((\<lparr>ca_nrigid = length ss, ca_natoms = 0, ca_coords = rbgrad'\<rparr>,
              3 * sum_list (take k (map natoms ss))), None)
       \<and> length rbgrad' = 6 * length ss"
  using assms(4)
proof (induction k)
  case 0
  then show ?case using assms(2) by simp
next
  case (Suc k)
  then obtain r where loop: "for_sites_inplace (transform_gradient_site rot_mat_derivatives ss grad coords_rot)
            [0..<k] (\<lparr>ca_nrigid = length ss, ca_natoms = 0, ca_coords = rbgrad\<rparr>, 0)
          = ((\<lparr>ca_nrigid = length ss, ca_natoms = 0, ca_coords = r\<rparr>,
              3 * sum_list (take k (map natoms ss))), None)"
    and len: "length r = 6 * length ss"
    by auto
  have k: "k < length ss" using Suc.prems by simp
  have next_sum: "sum_list (take (Suc k) (map natoms ss)) = sum_list (take k (map natoms ss)) + natoms (ss ! k)"
    using k by (simp add: sum_list_take_Suc)
  have "sum_list (take (Suc k) (map natoms ss)) \<le> sum_list (map natoms ss)"
    by (rule sum_list_take_le)
  then have room: "3 * sum_list (take k (map natoms ss)) + natoms (ss ! k) * 3 \<le> length grad"
    using assms(3) next_sum by simp
  from transform_gradient_site_ok [OF k assms(1) len room, of rot_mat_derivatives]
  obtain r' where step: "transform_gradient_site rot_mat_derivatives ss grad coords_rot k
            (\<lparr>ca_nrigid = length ss, ca_natoms = 0, ca_coords = r\<rparr>, 3 * sum_list (take k (map natoms ss)))
          = ((\<lparr>ca_nrigid = length ss, ca_natoms = 0, ca_coords = r'\<rparr>,
              3 * sum_list (take k (map natoms ss)) + natoms (ss ! k) * 3), None)"
    and len': "length r' = 6 * length ss"
    by blast
  have "for_sites_inplace (transform_gradient_site rot_mat_derivatives ss grad coords_rot)
            [0..<Suc k] (\<lparr>ca_nrigid = length ss, ca_natoms = 0, ca_coords = rbgrad\<rparr>, 0)
          = ((\<lparr>ca_nrigid = length ss, ca_natoms = 0, ca_coords = r'\<rparr>,
              3 * sum_list (take (Suc k) (map natoms ss))), None)"
    by (simp add: for_sites_inplace_append loop step next_sum)
  with len' show ?case by blast
qed

text \<open>
  Claim C4. \<^verbatim>\<open>RBTopology::transform_gradient\<close> fails exactly when \<open>rbcoords\<close> does not have
  \<open>6 * nrigid\<close> entries, or \<open>grad\<close> does not have \<open>3 * natoms_total\<close> entries, or \<open>rbgrad\<close>
  does not have as many entries as \<open>rbcoords\<close>. The failure is the invalid-argument
  error, it is raised by the three checks that precede every computation, and \<open>rbgrad\<close> is
  then left as it was. The topology is one whose cached atom count is either not yet
  computed (zero, so that the call finalizes it) or the count \<^verbatim>\<open>finalize\<close> computes.
\<close>

theorem RBTopology_transform_gradient_size_errors:
  assumes "natoms_total t = 0
      \<or> natoms_total t = sum_list (map natoms (sites t)) + number_of_non_rigid_atoms t"
  shows "(length rbcoords \<noteq> 6 * nrigid t
        \<or> length grad \<noteq> 3 * (sum_list (map natoms (sites t)) + number_of_non_rigid_atoms t)
        \<or> length rbgrad \<noteq> length rbcoords
      \<longrightarrow> RBTopology_transform_gradient rot_mat_derivatives t rbcoords grad rbgrad
            = (rbgrad, Some InvalidArgument))
    \<and> (length rbcoords = 6 * nrigid t
        \<and> length grad = 3 * (sum_list (map natoms (sites t)) + number_of_non_rigid_atoms t)
        \<and> length rbgrad = length rbcoords
      \<longrightarrow> snd (RBTopology_transform_gradient rot_mat_derivatives t rbcoords grad rbgrad) = None)"
proof -
  let ?t = "if natoms_total t = 0 then finalize t else t"
  let ?N = "sum_list (map natoms (sites t)) + number_of_non_rigid_atoms t"
  have total: "natoms_total ?t = ?N" using assms by (auto simp: finalize_def)
  have same: "nrigid ?t = nrigid t" "sites ?t = sites t" by (simp_all add: finalize_def nrigid_def)
  have bad: "RBTopology_transform_gradient rot_mat_derivatives t rbcoords grad rbgrad
            = (rbgrad, Some InvalidArgument)"
    if "length rbcoords \<noteq> 6 * nrigid t \<or> length grad \<noteq> 3 * ?N \<or> length rbgrad \<noteq> length rbcoords"
    using that total same
    by (auto simp: RBTopology_transform_gradient_def Let_def mult.commute)
  have good: "snd (RBTopology_transform_gradient rot_mat_derivatives t rbcoords grad rbgrad) = None"
    if sz: "length rbcoords = 6 * nrigid t" "length grad = 3 * ?N" "length rbgrad = length rbcoords"
  proof -
    let ?coords_rot = "drop (3 * nrigid t) rbcoords"
    have "length ?coords_rot = 3 * length (sites t)" "length rbgrad = 6 * length (sites t)"
      "3 * sum_list (map natoms (sites t)) \<le> length grad" "length (sites t) \<le> length (sites t)"
      using sz by (simp_all add: nrigid_def)
    from transform_gradient_loop_ok [OF this, of rot_mat_derivatives]
    obtain r where loop: "for_sites_inplace
        (transform_gradient_site rot_mat_derivatives (sites t) grad ?coords_rot)
        [0..<nrigid t] (\<lparr>ca_nrigid = nrigid t, ca_natoms = 0, ca_coords = rbgrad\<rparr>, 0)
      = ((\<lparr>ca_nrigid = nrigid t, ca_natoms = 0, ca_coords = r\<rparr>,
          3 * sum_list (take (nrigid t) (map natoms (sites t)))), None)"
      unfolding nrigid_def by blast
    have "RBTopology_transform_gradient rot_mat_derivatives t rbcoords grad rbgrad = (r, None)"
      unfolding RBTopology_transform_gradient_def Let_def total same
      using sz
      by (simp add: CoordsAdaptor_def get_rb_rotations_def get_rb_positions_def view_Inr loop)
    then show ?thesis by simp
  qed
  from bad good show ?thesis by blast
qed

theorem RBTopology_transform_gradient_size_errors_witness:
  "RBTopology_transform_gradient (\<lambda>p. (\<lambda>i j. 0, \<lambda>i j. 0, \<lambda>i j. 0, \<lambda>i j. 0))
      \<lparr>sites = [\<lparr>atom_positions = [1, 0, 0 :: real]\<rparr>], number_of_non_rigid_atoms = 0, natoms_total = 0\<rparr>
      [0, 0, 0, 0, 0, 0] [1, 2] [7, 7, 7, 7, 7, 7]
    = ([7, 7, 7, 7, 7, 7], Some InvalidArgument)
   \<and> snd (RBTopology_transform_gradient (\<lambda>p. (\<lambda>i j. 0, \<lambda>i j. 0, \<lambda>i j. 0, \<lambda>i j. 0))
      \<lparr>sites = [\<lparr>atom_positions = [1, 0, 0 :: real]\<rparr>], number_of_non_rigid_atoms = 0, natoms_total = 0\<rparr>
      [0, 0, 0, 0, 0, 0] [1, 2, 3] [7, 7, 7, 7, 7, 7]) = None"
proof -
  let ?t = "\<lparr>sites = [\<lparr>atom_positions = [1, 0, 0 :: real]\<rparr>], number_of_non_rigid_atoms = 0,
      natoms_total = 0\<rparr>"
  let ?D = "\<lambda>p :: real vec3. (\<lambda>(i :: nat) (j :: nat). 0 :: real, \<lambda>(i :: nat) (j :: nat). 0 :: real,
      \<lambda>(i :: nat) (j :: nat). 0 :: real, \<lambda>(i :: nat) (j :: nat). 0 :: real)"
  have h: "natoms_total ?t = 0
      \<or> natoms_total ?t = sum_list (map natoms (sites ?t)) + number_of_non_rigid_atoms ?t"
    by simp
  have n: "nrigid ?t = 1" "sum_list (map natoms (sites ?t)) + number_of_non_rigid_atoms ?t = 1"
    by (simp_all add: nrigid_def natoms_def ndim_def)
  show ?thesis
    using RBTopology_transform_gradient_size_errors [OF h, where rbcoords = "[0, 0, 0, 0, 0, 0]"
        and grad = "[1, 2]" and rbgrad = "[7, 7, 7, 7, 7, 7]" and rot_mat_derivatives = ?D]
      RBTopology_transform_gradient_size_errors [OF h, where rbcoords = "[0, 0, 0, 0, 0, 0]"
        and grad = "[1, 2, 3]" and rbgrad = "[7, 7, 7, 7, 7, 7]" and rot_mat_derivatives = ?D]
    unfolding n by simp
qed

subsection \<open>Alignment: distances and the scalar product\<close>

lemma norm3_dot: "norm3 v = sqrt (vec3_dot v v)"
  by (cases v) simp

lemma vec3_dot_nonneg: "0 \<le> vec3_dot v v"
  by (cases v) simp

lemma vec3_dot_norm3: "vec3_dot v v = (norm3 v)\<^sup>2"
  by (simp add: norm3_dot vec3_dot_nonneg)

lemma norm3_nonneg: "0 \<le> norm3 v"
  by (simp add: norm3_dot vec3_dot_nonneg)

lemma norm3_scale: "norm3 (vec3_scale v s) = \<bar>s\<bar> * norm3 v"
proof (cases v)
  case (Vec3 a b c)
  have "a * s * (a * s) + b * s * (b * s) + c * s * (c * s) = s\<^sup>2 * (a * a + b * b + c * c)"
    by (simp add: algebra_simps power2_eq_square)
  then show ?thesis
    using Vec3 by (simp add: real_sqrt_mult)
qed

lemma norm3_axis: "norm3 (Vec3 a 0 0) = \<bar>a\<bar>"
  by simp

lemma norm3_axis_y: "norm3 (Vec3 0 a 0) = \<bar>a\<bar>"
  by simp

lemma step_norm:
  assumes "0 < norm3 v"
  shows "norm3 (vec3_scale v (2 * pi / norm3 v)) = 2 * pi"
  using assms by (simp add: norm3_scale)

lemma dot_after_add:
  "vec3_dot (vec3_sub (vec3_add q n2) p1) (vec3_sub (vec3_add q n2) p1) =
   vec3_dot (vec3_sub q p1) (vec3_sub q p1) + 2 * vec3_dot (vec3_sub q p1) n2 + vec3_dot n2 n2"
  by (cases q; cases n2; cases p1) (simp add: algebra_simps)

lemma dot_after_sub:
  "vec3_dot (vec3_sub (vec3_sub q n2) p1) (vec3_sub (vec3_sub q n2) p1) =
   vec3_dot (vec3_sub q p1) (vec3_sub q p1) - 2 * vec3_dot (vec3_sub q p1) n2 + vec3_dot n2 n2"
  by (cases q; cases n2; cases p1) (simp add: algebra_simps)

lemma farther_add_iff:
  "norm3 (vec3_sub (vec3_add q n2) p1) > norm3 (vec3_sub q p1) \<longleftrightarrow>
   0 < 2 * vec3_dot (vec3_sub q p1) n2 + vec3_dot n2 n2"
  by (simp add: norm3_dot dot_after_add)

lemma farther_sub_iff:
  "norm3 (vec3_sub (vec3_sub q n2) p1) > norm3 (vec3_sub q p1) \<longleftrightarrow>
   2 * vec3_dot (vec3_sub q p1) n2 < vec3_dot n2 n2"
  by (simp add: norm3_dot dot_after_sub)

lemma dot_step_add:
  "vec3_dot (vec3_sub (vec3_add q n2) p1) n2 = vec3_dot (vec3_sub q p1) n2 + vec3_dot n2 n2"
  by (cases q; cases n2; cases p1) (simp add: algebra_simps)

lemma dot_step_sub:
  "vec3_dot (vec3_sub (vec3_sub q n2) p1) n2 = vec3_dot (vec3_sub q p1) n2 - vec3_dot n2 n2"
  by (cases q; cases n2; cases p1) (simp add: algebra_simps)

lemma vec3_add_sub_cancel: "vec3_sub (vec3_add q n2) n2 = q"
  by (cases q; cases n2) simp

lemma vec3_sub_add_cancel: "vec3_add (vec3_sub q n2) n2 = q"
  by (cases q; cases n2) simp

lemma funpow_add_scale:
  "((\<lambda>v. vec3_add v n2) ^^ k) q = vec3_add q (vec3_scale n2 (real k))"
proof (induction k)
  case 0
  then show ?case by (cases q; cases n2) simp
next
  case (Suc k)
  then show ?case by (cases q; cases n2) (simp add: algebra_simps)
qed

lemma funpow_sub_scale:
  "((\<lambda>v. vec3_sub v n2) ^^ k) q = vec3_add q (vec3_scale n2 (- real k))"
proof (induction k)
  case 0
  then show ?case by (cases q; cases n2) simp
next
  case (Suc k)
  then show ?case by (cases q; cases n2) (simp add: algebra_simps)
qed

lemma periodicity_step_Some:
  assumes "periodicity_step p1 p2 = Some n2"
  shows "norm3 n2 = 2 * pi" and "0 < vec3_dot n2 n2"
proof -
  obtain v where v: "n2 = vec3_scale v (2 * pi / norm3 v)" "\<not> norm3 v < 1 / 10 ^ 6"
    using assms by (auto simp: periodicity_step_def split: if_splits)
  then have "0 < norm3 v" by simp
  then show "norm3 n2 = 2 * pi" using v by (simp add: step_norm)
  then show "0 < vec3_dot n2 n2" by (simp add: vec3_dot_norm3)
qed

subsection \<open>Alignment: the periodicity step\<close>

text \<open>
  Claim C5. If the magnitudes of \<open>p2\<close> and of \<open>p1\<close> are both below \<open>1e-6\<close>,
  \<^verbatim>\<open>align_angle_axis_vectors\<close> returns \<open>p2\<close> unchanged. If only the magnitude of \<open>p2\<close>
  is below it, the periodicity step \<open>n2\<close> is \<open>p1\<close> times the positive factor
  \<open>2 * pi / |p1|\<close>; otherwise it is \<open>p2\<close> times \<open>2 * pi / |p2|\<close>. In both cases its
  magnitude is \<open>2 * pi\<close>, and it is the step the two loops run with.
\<close>

theorem align_periodicity_step:
  "(norm3 p2 < 1 / 10 ^ 6 \<and> norm3 p1 < 1 / 10 ^ 6
      \<longrightarrow> align_angle_axis_vectors p1 p2 = Some p2)
   \<and> (norm3 p2 < 1 / 10 ^ 6 \<and> \<not> norm3 p1 < 1 / 10 ^ 6
      \<longrightarrow> periodicity_step p1 p2 = Some (vec3_scale p1 (2 * pi / norm3 p1))
        \<and> 0 < 2 * pi / norm3 p1
        \<and> norm3 (vec3_scale p1 (2 * pi / norm3 p1)) = 2 * pi)
   \<and> (\<not> norm3 p2 < 1 / 10 ^ 6
      \<longrightarrow> periodicity_step p1 p2 = Some (vec3_scale p2 (2 * pi / norm3 p2))
        \<and> 0 < 2 * pi / norm3 p2
        \<and> norm3 (vec3_scale p2 (2 * pi / norm3 p2)) = 2 * pi)
   \<and> (\<forall>n2. periodicity_step p1 p2 = Some n2
      \<longrightarrow> align_angle_axis_vectors p1 p2 =
          (case align_add_loop p1 n2 p2 of None \<Rightarrow> None | Some q \<Rightarrow> align_sub_loop p1 n2 q))"
proof -
  have pos: "0 < norm3 v" if "\<not> norm3 v < 1 / 10 ^ 6" for v
    using that by simp
  show ?thesis
    by (auto simp: align_angle_axis_vectors_def periodicity_step_def step_norm pos)
qed

theorem align_periodicity_step_witness:
  "align_angle_axis_vectors (Vec3 0 0 0) (Vec3 0 0 0) = Some (Vec3 0 0 0)
   \<and> periodicity_step (Vec3 3 0 0) (Vec3 0 0 0) = Some (Vec3 (2 * pi) 0 0)
   \<and> periodicity_step (Vec3 0 0 0) (Vec3 2 0 0) = Some (Vec3 (2 * pi) 0 0)"
  using align_periodicity_step [of "Vec3 0 0 0" "Vec3 0 0 0"]
    align_periodicity_step [of "Vec3 0 0 0" "Vec3 3 0 0"]
    align_periodicity_step [of "Vec3 2 0 0" "Vec3 0 0 0"]
  by simp

subsection \<open>Alignment: the two loops terminate\<close>

lemma align_add_loop_break:
  "norm3 (vec3_sub (vec3_add q n2) p1) > norm3 (vec3_sub q p1) \<Longrightarrow> align_add_loop p1 n2 q = Some q"
  by (subst align_add_loop.simps) simp

lemma align_add_loop_step:
  "\<not> norm3 (vec3_sub (vec3_add q n2) p1) > norm3 (vec3_sub q p1) \<Longrightarrow>
   align_add_loop p1 n2 q = align_add_loop p1 n2 (vec3_add q n2)"
  by (subst align_add_loop.simps) simp

lemma align_sub_loop_break:
  "norm3 (vec3_sub (vec3_sub q n2) p1) > norm3 (vec3_sub q p1) \<Longrightarrow> align_sub_loop p1 n2 q = Some q"
  by (subst align_sub_loop.simps) simp

lemma align_sub_loop_step:
  "\<not> norm3 (vec3_sub (vec3_sub q n2) p1) > norm3 (vec3_sub q p1) \<Longrightarrow>
   align_sub_loop p1 n2 q = align_sub_loop p1 n2 (vec3_sub q n2)"
  by (subst align_sub_loop.simps) simp

lemma align_add_loop_break_dot:
  "0 < 2 * vec3_dot (vec3_sub q p1) n2 + vec3_dot n2 n2 \<Longrightarrow> align_add_loop p1 n2 q = Some q"
  by (simp add: align_add_loop_break farther_add_iff)

lemma align_add_loop_step_dot:
  "2 * vec3_dot (vec3_sub q p1) n2 + vec3_dot n2 n2 \<le> 0 \<Longrightarrow>
   align_add_loop p1 n2 q = align_add_loop p1 n2 (vec3_add q n2)"
  by (simp add: align_add_loop_step farther_add_iff)

lemma align_sub_loop_break_dot:
  "2 * vec3_dot (vec3_sub q p1) n2 < vec3_dot n2 n2 \<Longrightarrow> align_sub_loop p1 n2 q = Some q"
  by (simp add: align_sub_loop_break farther_sub_iff)

lemma align_sub_loop_step_dot:
  "vec3_dot n2 n2 \<le> 2 * vec3_dot (vec3_sub q p1) n2 \<Longrightarrow>
   align_sub_loop p1 n2 q = align_sub_loop p1 n2 (vec3_sub q n2)"
  by (simp add: align_sub_loop_step farther_sub_iff)

lemma align_add_loop_bounded:
  assumes "0 < 2 * (vec3_dot (vec3_sub q p1) n2 + real N * vec3_dot n2 n2) + vec3_dot n2 n2"
  shows "\<exists>k. align_add_loop p1 n2 q = Some (((\<lambda>v. vec3_add v n2) ^^ k) q)
     \<and> (\<forall>i<k. norm3 (vec3_sub (((\<lambda>v. vec3_add v n2) ^^ Suc i) q) p1)
             \<le> norm3 (vec3_sub (((\<lambda>v. vec3_add v n2) ^^ i) q) p1))
     \<and> norm3 (vec3_sub (((\<lambda>v. vec3_add v n2) ^^ Suc k) q) p1)
         > norm3 (vec3_sub (((\<lambda>v. vec3_add v n2) ^^ k) q) p1)"
  using assms
proof (induction N arbitrary: q)
  case 0
  then have "norm3 (vec3_sub (vec3_add q n2) p1) > norm3 (vec3_sub q p1)"
    by (simp add: farther_add_iff)
  then have "align_add_loop p1 n2 q = Some (((\<lambda>v. vec3_add v n2) ^^ 0) q)
     \<and> norm3 (vec3_sub (((\<lambda>v. vec3_add v n2) ^^ Suc 0) q) p1)
         > norm3 (vec3_sub (((\<lambda>v. vec3_add v n2) ^^ 0) q) p1)"
    by (simp add: align_add_loop_break)
  then show ?case by blast
next
  case (Suc N)
  let ?f = "\<lambda>v. vec3_add v n2"
  show ?case
  proof (cases "norm3 (vec3_sub (vec3_add q n2) p1) > norm3 (vec3_sub q p1)")
    case True
    then have "align_add_loop p1 n2 q = Some ((?f ^^ 0) q)
       \<and> norm3 (vec3_sub ((?f ^^ Suc 0) q) p1) > norm3 (vec3_sub ((?f ^^ 0) q) p1)"
      by (simp add: align_add_loop_break)
    then show ?thesis by blast
  next
    case False
    have "0 < 2 * (vec3_dot (vec3_sub (vec3_add q n2) p1) n2 + real N * vec3_dot n2 n2) + vec3_dot n2 n2"
      using Suc.prems by (simp add: dot_step_add algebra_simps)
    from Suc.IH [OF this]
    obtain k where run: "align_add_loop p1 n2 (?f q) = Some ((?f ^^ k) (?f q))"
      and mono: "\<And>i. i < k \<Longrightarrow> norm3 (vec3_sub ((?f ^^ Suc i) (?f q)) p1)
             \<le> norm3 (vec3_sub ((?f ^^ i) (?f q)) p1)"
      and stop: "norm3 (vec3_sub ((?f ^^ Suc k) (?f q)) p1) > norm3 (vec3_sub ((?f ^^ k) (?f q)) p1)"
      by blast
    have shift: "(?f ^^ i) (?f q) = (?f ^^ Suc i) q" for i
      by (simp del: funpow.simps add: funpow_Suc_right)
    have 1: "align_add_loop p1 n2 q = Some ((?f ^^ Suc k) q)"
      using False run [unfolded shift] by (simp add: align_add_loop_step)
    have 2: "\<forall>i<Suc k. norm3 (vec3_sub ((?f ^^ Suc i) q) p1) \<le> norm3 (vec3_sub ((?f ^^ i) q) p1)"
    proof (intro allI impI)
      fix i assume "i < Suc k"
      show "norm3 (vec3_sub ((?f ^^ Suc i) q) p1) \<le> norm3 (vec3_sub ((?f ^^ i) q) p1)"
      proof (cases i)
        case 0
        then show ?thesis using False by simp
      next
        case (Suc j)
        then have "j < k" using \<open>i < Suc k\<close> by simp
        from mono [OF this] show ?thesis unfolding shift Suc .
      qed
    qed
    have 3: "norm3 (vec3_sub ((?f ^^ Suc (Suc k)) q) p1) > norm3 (vec3_sub ((?f ^^ Suc k) q) p1)"
      using stop unfolding shift .
    from 1 2 3 show ?thesis by blast
  qed
qed

lemma align_sub_loop_bounded:
  assumes "2 * (vec3_dot (vec3_sub q p1) n2 - real N * vec3_dot n2 n2) < vec3_dot n2 n2"
  shows "\<exists>k. align_sub_loop p1 n2 q = Some (((\<lambda>v. vec3_sub v n2) ^^ k) q)
     \<and> (\<forall>i<k. norm3 (vec3_sub (((\<lambda>v. vec3_sub v n2) ^^ Suc i) q) p1)
             \<le> norm3 (vec3_sub (((\<lambda>v. vec3_sub v n2) ^^ i) q) p1))
     \<and> norm3 (vec3_sub (((\<lambda>v. vec3_sub v n2) ^^ Suc k) q) p1)
         > norm3 (vec3_sub (((\<lambda>v. vec3_sub v n2) ^^ k) q) p1)"
  using assms
proof (induction N arbitrary: q)
  case 0
  then have "norm3 (vec3_sub (vec3_sub q n2) p1) > norm3 (vec3_sub q p1)"
    by (simp add: farther_sub_iff)
  then have "align_sub_loop p1 n2 q = Some (((\<lambda>v. vec3_sub v n2) ^^ 0) q)
     \<and> norm3 (vec3_sub (((\<lambda>v. vec3_sub v n2) ^^ Suc 0) q) p1)
         > norm3 (vec3_sub (((\<lambda>v. vec3_sub v n2) ^^ 0) q) p1)"
    by (simp add: align_sub_loop_break)
  then show ?case by blast
next
  case (Suc N)
  let ?f = "\<lambda>v. vec3_sub v n2"
  show ?case
  proof (cases "norm3 (vec3_sub (vec3_sub q n2) p1) > norm3 (vec3_sub q p1)")
    case True
    then have "align_sub_loop p1 n2 q = Some ((?f ^^ 0) q)
       \<and> norm3 (vec3_sub ((?f ^^ Suc 0) q) p1) > norm3 (vec3_sub ((?f ^^ 0) q) p1)"
      by (simp add: align_sub_loop_break)
    then show ?thesis by blast
  next
    case False
    have "2 * (vec3_dot (vec3_sub (vec3_sub q n2) p1) n2 - real N * vec3_dot n2 n2) < vec3_dot n2 n2"
      using Suc.prems by (simp add: dot_step_sub algebra_simps)
    from Suc.IH [OF this]
    obtain k where run: "align_sub_loop p1 n2 (?f q) = Some ((?f ^^ k) (?f q))"
      and mono: "\<And>i. i < k \<Longrightarrow> norm3 (vec3_sub ((?f ^^ Suc i) (?f q)) p1)
             \<le> norm3 (vec3_sub ((?f ^^ i) (?f q)) p1)"
      and stop: "norm3 (vec3_sub ((?f ^^ Suc k) (?f q)) p1) > norm3 (vec3_sub ((?f ^^ k) (?f q)) p1)"
      by blast
    have shift: "(?f ^^ i) (?f q) = (?f ^^ Suc i) q" for i
      by (simp del: funpow.simps add: funpow_Suc_right)
    have 1: "align_sub_loop p1 n2 q = Some ((?f ^^ Suc k) q)"
      using False run [unfolded shift] by (simp add: align_sub_loop_step)
    have 2: "\<forall>i<Suc k. norm3 (vec3_sub ((?f ^^ Suc i) q) p1) \<le> norm3 (vec3_sub ((?f ^^ i) q) p1)"
    proof (intro allI impI)
      fix i assume "i < Suc k"
      show "norm3 (vec3_sub ((?f ^^ Suc i) q) p1) \<le> norm3 (vec3_sub ((?f ^^ i) q) p1)"
      proof (cases i)
        case 0
        then show ?thesis using False by simp
      next
        case (Suc j)
        then have "j < k" using \<open>i < Suc k\<close> by simp
        from mono [OF this] show ?thesis unfolding shift Suc .
      qed
    qed
    have 3: "norm3 (vec3_sub ((?f ^^ Suc (Suc k)) q) p1) > norm3 (vec3_sub ((?f ^^ Suc k) q) p1)"
      using stop unfolding shift .
    from 1 2 3 show ?thesis by blast
  qed
qed

lemma align_add_loop_result:
  assumes "0 < vec3_dot n2 n2"
  shows "\<exists>k. align_add_loop p1 n2 q = Some (((\<lambda>v. vec3_add v n2) ^^ k) q)
     \<and> (\<forall>i<k. norm3 (vec3_sub (((\<lambda>v. vec3_add v n2) ^^ Suc i) q) p1)
             \<le> norm3 (vec3_sub (((\<lambda>v. vec3_add v n2) ^^ i) q) p1))
     \<and> norm3 (vec3_sub (((\<lambda>v. vec3_add v n2) ^^ Suc k) q) p1)
         > norm3 (vec3_sub (((\<lambda>v. vec3_add v n2) ^^ k) q) p1)"
proof -
  from ex_less_of_nat_mult [of "2 * vec3_dot n2 n2" "- (2 * vec3_dot (vec3_sub q p1) n2 + vec3_dot n2 n2)"]
  obtain N :: nat where "- (2 * vec3_dot (vec3_sub q p1) n2 + vec3_dot n2 n2) < real N * (2 * vec3_dot n2 n2)"
    using assms by auto
  then have "0 < 2 * (vec3_dot (vec3_sub q p1) n2 + real N * vec3_dot n2 n2) + vec3_dot n2 n2"
    by (simp add: algebra_simps)
  then show ?thesis by (rule align_add_loop_bounded)
qed

lemma align_sub_loop_result:
  assumes "0 < vec3_dot n2 n2"
  shows "\<exists>k. align_sub_loop p1 n2 q = Some (((\<lambda>v. vec3_sub v n2) ^^ k) q)
     \<and> (\<forall>i<k. norm3 (vec3_sub (((\<lambda>v. vec3_sub v n2) ^^ Suc i) q) p1)
             \<le> norm3 (vec3_sub (((\<lambda>v. vec3_sub v n2) ^^ i) q) p1))
     \<and> norm3 (vec3_sub (((\<lambda>v. vec3_sub v n2) ^^ Suc k) q) p1)
         > norm3 (vec3_sub (((\<lambda>v. vec3_sub v n2) ^^ k) q) p1)"
proof -
  from ex_less_of_nat_mult [of "2 * vec3_dot n2 n2" "2 * vec3_dot (vec3_sub q p1) n2 - vec3_dot n2 n2"]
  obtain N :: nat where "2 * vec3_dot (vec3_sub q p1) n2 - vec3_dot n2 n2 < real N * (2 * vec3_dot n2 n2)"
    using assms by auto
  then have "2 * (vec3_dot (vec3_sub q p1) n2 - real N * vec3_dot n2 n2) < vec3_dot n2 n2"
    by (simp add: algebra_simps)
  then show ?thesis by (rule align_sub_loop_bounded)
qed

lemma align_loops_run:
  assumes "periodicity_step p1 p2 = Some n2"
  shows "\<exists>k j.
      align_add_loop p1 n2 p2 = Some (((\<lambda>v. vec3_add v n2) ^^ k) p2)
    \<and> (\<forall>i<k. norm3 (vec3_sub (((\<lambda>v. vec3_add v n2) ^^ Suc i) p2) p1)
             \<le> norm3 (vec3_sub (((\<lambda>v. vec3_add v n2) ^^ i) p2) p1))
    \<and> norm3 (vec3_sub (((\<lambda>v. vec3_add v n2) ^^ Suc k) p2) p1)
         > norm3 (vec3_sub (((\<lambda>v. vec3_add v n2) ^^ k) p2) p1)
    \<and> align_sub_loop p1 n2 (((\<lambda>v. vec3_add v n2) ^^ k) p2)
         = Some (((\<lambda>v. vec3_sub v n2) ^^ j) (((\<lambda>v. vec3_add v n2) ^^ k) p2))
    \<and> (\<forall>i<j. norm3 (vec3_sub (((\<lambda>v. vec3_sub v n2) ^^ Suc i) (((\<lambda>v. vec3_add v n2) ^^ k) p2)) p1)
             \<le> norm3 (vec3_sub (((\<lambda>v. vec3_sub v n2) ^^ i) (((\<lambda>v. vec3_add v n2) ^^ k) p2)) p1))
    \<and> norm3 (vec3_sub (((\<lambda>v. vec3_sub v n2) ^^ Suc j) (((\<lambda>v. vec3_add v n2) ^^ k) p2)) p1)
         > norm3 (vec3_sub (((\<lambda>v. vec3_sub v n2) ^^ j) (((\<lambda>v. vec3_add v n2) ^^ k) p2)) p1)
    \<and> align_angle_axis_vectors p1 p2
         = Some (((\<lambda>v. vec3_sub v n2) ^^ j) (((\<lambda>v. vec3_add v n2) ^^ k) p2))"
proof -
  have c: "0 < vec3_dot n2 n2" using assms by (rule periodicity_step_Some)
  from align_add_loop_result [OF c, of p1 p2]
  obtain k where a: "align_add_loop p1 n2 p2 = Some (((\<lambda>v. vec3_add v n2) ^^ k) p2)"
    "\<forall>i<k. norm3 (vec3_sub (((\<lambda>v. vec3_add v n2) ^^ Suc i) p2) p1)
             \<le> norm3 (vec3_sub (((\<lambda>v. vec3_add v n2) ^^ i) p2) p1)"
    "norm3 (vec3_sub (((\<lambda>v. vec3_add v n2) ^^ Suc k) p2) p1)
         > norm3 (vec3_sub (((\<lambda>v. vec3_add v n2) ^^ k) p2) p1)"
    by blast
  let ?a = "((\<lambda>v. vec3_add v n2) ^^ k) p2"
  from align_sub_loop_result [OF c, of p1 ?a]
  obtain j where s: "align_sub_loop p1 n2 ?a = Some (((\<lambda>v. vec3_sub v n2) ^^ j) ?a)"
    "\<forall>i<j. norm3 (vec3_sub (((\<lambda>v. vec3_sub v n2) ^^ Suc i) ?a) p1)
             \<le> norm3 (vec3_sub (((\<lambda>v. vec3_sub v n2) ^^ i) ?a) p1)"
    "norm3 (vec3_sub (((\<lambda>v. vec3_sub v n2) ^^ Suc j) ?a) p1)
         > norm3 (vec3_sub (((\<lambda>v. vec3_sub v n2) ^^ j) ?a) p1)"
    by blast
  have "align_angle_axis_vectors p1 p2 = Some (((\<lambda>v. vec3_sub v n2) ^^ j) ?a)"
    by (simp add: align_angle_axis_vectors_def assms a(1) s(1))
  with a s show ?thesis by blast
qed

text \<open>
  Claim C6, as amended. With the periodicity step \<open>n2\<close>, the first loop adds \<open>n2\<close> to
  \<open>p2\<close> some \<open>k\<close> times: none of the \<open>k\<close> additions increases the distance to \<open>p1\<close>,
  and one more addition would increase it strictly. From the vector so reached the second
  loop subtracts \<open>n2\<close> some \<open>j\<close> times: none of the \<open>j\<close> subtractions increases the
  distance, and one more would increase it strictly. Both loops terminate, and the vector
  reached is what \<^verbatim>\<open>align_angle_axis_vectors\<close> returns.
\<close>

theorem align_loops_trace:
  assumes "periodicity_step p1 p2 = Some n2"
  shows "\<exists>k j.
      align_add_loop p1 n2 p2 = Some (((\<lambda>v. vec3_add v n2) ^^ k) p2)
    \<and> (\<forall>i<k. norm3 (vec3_sub (((\<lambda>v. vec3_add v n2) ^^ Suc i) p2) p1)
             \<le> norm3 (vec3_sub (((\<lambda>v. vec3_add v n2) ^^ i) p2) p1))
    \<and> norm3 (vec3_sub (((\<lambda>v. vec3_add v n2) ^^ Suc k) p2) p1)
         > norm3 (vec3_sub (((\<lambda>v. vec3_add v n2) ^^ k) p2) p1)
    \<and> align_sub_loop p1 n2 (((\<lambda>v. vec3_add v n2) ^^ k) p2)
         = Some (((\<lambda>v. vec3_sub v n2) ^^ j) (((\<lambda>v. vec3_add v n2) ^^ k) p2))
    \<and> (\<forall>i<j. norm3 (vec3_sub (((\<lambda>v. vec3_sub v n2) ^^ Suc i) (((\<lambda>v. vec3_add v n2) ^^ k) p2)) p1)
             \<le> norm3 (vec3_sub (((\<lambda>v. vec3_sub v n2) ^^ i) (((\<lambda>v. vec3_add v n2) ^^ k) p2)) p1))
    \<and> norm3 (vec3_sub (((\<lambda>v. vec3_sub v n2) ^^ Suc j) (((\<lambda>v. vec3_add v n2) ^^ k) p2)) p1)
         > norm3 (vec3_sub (((\<lambda>v. vec3_sub v n2) ^^ j) (((\<lambda>v. vec3_add v n2) ^^ k) p2)) p1)
    \<and> align_angle_axis_vectors p1 p2
         = Some (((\<lambda>v. vec3_sub v n2) ^^ j) (((\<lambda>v. vec3_add v n2) ^^ k) p2))"
  using assms by (rule align_loops_run)

theorem align_loops_trace_witness:
  "periodicity_step (Vec3 (2 * pi) 0 0) (Vec3 1 0 0) = Some (Vec3 (2 * pi) 0 0)
   \<and> align_angle_axis_vectors (Vec3 (2 * pi) 0 0) (Vec3 1 0 0) = Some (Vec3 (1 + 2 * pi) 0 0)"
proof -
  let ?p1 = "Vec3 (2 * pi) 0 0" and ?p2 = "Vec3 1 0 0" and ?n2 = "Vec3 (2 * pi) 0 0"
  let ?A = "\<lambda>i. ((\<lambda>v. vec3_add v ?n2) ^^ i) ?p2"
  have step: "periodicity_step ?p1 ?p2 = Some ?n2"
    by (simp add: periodicity_step_def)
  from align_loops_trace [OF step]
  obtain k j where mono_add: "\<And>i. i < k \<Longrightarrow> norm3 (vec3_sub (?A (Suc i)) ?p1) \<le> norm3 (vec3_sub (?A i) ?p1)"
    and stop_add: "norm3 (vec3_sub (?A (Suc k)) ?p1) > norm3 (vec3_sub (?A k) ?p1)"
    and mono_sub: "\<And>i. i < j \<Longrightarrow>
        norm3 (vec3_sub (((\<lambda>v. vec3_sub v ?n2) ^^ Suc i) (?A k)) ?p1)
          \<le> norm3 (vec3_sub (((\<lambda>v. vec3_sub v ?n2) ^^ i) (?A k)) ?p1)"
    and result: "align_angle_axis_vectors ?p1 ?p2 = Some (((\<lambda>v. vec3_sub v ?n2) ^^ j) (?A k))"
    by blast
  have A0: "?A 0 = Vec3 1 0 0" and A1: "?A (Suc 0) = Vec3 (1 + 2 * pi) 0 0"
    and A2: "?A (Suc (Suc 0)) = Vec3 (1 + 4 * pi) 0 0"
    by simp_all
  have k: "k = Suc 0"
  proof (rule ccontr)
    assume "k \<noteq> Suc 0"
    then consider "k = 0" | "Suc 0 < k" by arith
    then show False
    proof cases
      case 1
      with stop_add show False
        using pi_ge_two unfolding 1 A0 A1 by (simp add: norm3_axis del: norm3.simps)
    next
      case 2
      from mono_add [OF 2] show False
        using pi_ge_two unfolding A1 A2 by (simp add: norm3_axis del: norm3.simps)
    qed
  qed
  have j: "j = 0"
  proof (rule ccontr)
    assume "j \<noteq> 0"
    then have "0 < j" by simp
    from mono_sub [OF this] show False
      using pi_ge_two unfolding k A1 by (simp add: norm3_axis del: norm3.simps)
  qed
  from result have "align_angle_axis_vectors ?p1 ?p2 = Some (Vec3 (1 + 2 * pi) 0 0)"
    unfolding k j A1 by simp
  with step show ?thesis by simp
qed

text \<open>
  Claim C6 as stated has each addition decrease the distance strictly. The loop breaks on
  \<^verbatim>\<open>>\<close> (line 168), so it also takes a step that leaves the distance as it is: for
  \<open>p1 = (2 * pi, 0, 0)\<close> and \<open>p2 = (pi, 0, 0)\<close> the step is \<open>(2 * pi, 0, 0)\<close>, and the first
  loop moves \<open>p2\<close> to \<open>(3 * pi, 0, 0)\<close>, which is as far from \<open>p1\<close> as \<open>p2\<close> was.
\<close>

theorem align_add_loop_tie_counterexample:
  "periodicity_step (Vec3 (2 * pi) 0 0) (Vec3 pi 0 0) = Some (Vec3 (2 * pi) 0 0)
   \<and> align_add_loop (Vec3 (2 * pi) 0 0) (Vec3 (2 * pi) 0 0) (Vec3 pi 0 0) = Some (Vec3 (3 * pi) 0 0)
   \<and> Vec3 (3 * pi) 0 0 = vec3_add (Vec3 pi 0 0) (Vec3 (2 * pi) 0 0)
   \<and> \<not> norm3 (vec3_sub (Vec3 (3 * pi) 0 0) (Vec3 (2 * pi) 0 0))
         < norm3 (vec3_sub (Vec3 pi 0 0) (Vec3 (2 * pi) 0 0))"
proof -
  have 1: "periodicity_step (Vec3 (2 * pi) 0 0) (Vec3 pi 0 0) = Some (Vec3 (2 * pi) 0 0)"
    using pi_ge_two by (simp add: periodicity_step_def)
  have "align_add_loop (Vec3 (2 * pi) 0 0) (Vec3 (2 * pi) 0 0) (Vec3 pi 0 0)
      = align_add_loop (Vec3 (2 * pi) 0 0) (Vec3 (2 * pi) 0 0) (Vec3 (3 * pi) 0 0)"
    by (subst align_add_loop_step) (simp_all add: norm3_axis del: norm3.simps)
  also have "\<dots> = Some (Vec3 (3 * pi) 0 0)"
    using pi_ge_two by (subst align_add_loop_break) (simp_all add: norm3_axis del: norm3.simps)
  finally have 2: "align_add_loop (Vec3 (2 * pi) 0 0) (Vec3 (2 * pi) 0 0) (Vec3 pi 0 0)
      = Some (Vec3 (3 * pi) 0 0)" .
  from 1 2 show ?thesis by (simp add: norm3_axis del: norm3.simps)
qed

subsection \<open>Alignment: the result\<close>

lemma chain_le:
  fixes d :: "'a \<Rightarrow> real"
  assumes "\<forall>i<k. d ((f ^^ Suc i) q) \<le> d ((f ^^ i) q)"
  shows "d ((f ^^ k) q) \<le> d q"
  using assms
proof (induction k)
  case 0
  then show ?case by simp
next
  case (Suc k)
  then have "d ((f ^^ Suc k) q) \<le> d ((f ^^ k) q)" and "d ((f ^^ k) q) \<le> d q"
    by simp_all
  then show ?case by simp
qed

text \<open>
  Where both loops have stopped, the scalar product \<open>b\<close> of the offset from \<open>p1\<close> with the
  step satisfies \<open>- c \<le> 2 * b < c\<close>, with \<open>c\<close> the squared length of the step; from such
  a vector the two loops come back to it.
\<close>

lemma align_loops_fixed:
  assumes c: "0 < vec3_dot n2 n2"
    and lo: "0 \<le> 2 * vec3_dot (vec3_sub r p1) n2 + vec3_dot n2 n2"
    and hi: "2 * vec3_dot (vec3_sub r p1) n2 < vec3_dot n2 n2"
  shows "(case align_add_loop p1 n2 r of None \<Rightarrow> None | Some q \<Rightarrow> align_sub_loop p1 n2 q) = Some r"
proof (cases "0 < 2 * vec3_dot (vec3_sub r p1) n2 + vec3_dot n2 n2")
  case True
  then have "align_add_loop p1 n2 r = Some r"
    by (simp add: align_add_loop_break farther_add_iff)
  moreover have "align_sub_loop p1 n2 r = Some r"
    using hi by (simp add: align_sub_loop_break farther_sub_iff)
  ultimately show ?thesis by simp
next
  case False
  with lo have tie: "2 * vec3_dot (vec3_sub r p1) n2 + vec3_dot n2 n2 = 0" by simp
  have "align_add_loop p1 n2 r = align_add_loop p1 n2 (vec3_add r n2)"
    using False by (simp add: align_add_loop_step farther_add_iff)
  also have "\<dots> = Some (vec3_add r n2)"
    using tie c by (simp add: align_add_loop_break farther_add_iff dot_step_add)
  finally have add: "align_add_loop p1 n2 r = Some (vec3_add r n2)" .
  have "align_sub_loop p1 n2 (vec3_add r n2) = align_sub_loop p1 n2 (vec3_sub (vec3_add r n2) n2)"
    using tie by (simp add: align_sub_loop_step farther_sub_iff dot_step_add)
  also have "\<dots> = Some r"
    using hi by (simp add: vec3_add_sub_cancel align_sub_loop_break farther_sub_iff)
  finally show ?thesis using add by simp
qed

text \<open>
  The step of a vector that points against \<open>p2\<close> is the step of \<open>p2\<close> reversed.
  Scalar products with the reversed step change sign, and a tie between a vector and
  the one a step up is a zero of the quantity that the add loop tests.
\<close>

lemma tie_add_iff:
  "norm3 (vec3_sub (vec3_add q n2) p1) = norm3 (vec3_sub q p1) \<longleftrightarrow>
   2 * vec3_dot (vec3_sub q p1) n2 + vec3_dot n2 n2 = 0"
  by (simp add: norm3_dot dot_after_add vec3_dot_nonneg)

lemma vec3_dot_reversed: "vec3_dot v (vec3_scale n2 (- 1)) = - vec3_dot v n2"
  by (cases v; cases n2) simp

lemma vec3_dot_reversed_left: "vec3_dot (vec3_scale n2 (- 1)) v = - vec3_dot n2 v"
  by (cases v; cases n2) simp

lemma vec3_sub_reversed: "vec3_sub q (vec3_scale n2 (- 1)) = vec3_add q n2"
  by (cases q; cases n2) simp

lemma vec3_add_neq:
  assumes "0 < vec3_dot n2 n2"
  shows "vec3_add r n2 \<noteq> r"
proof
  assume "vec3_add r n2 = r"
  then have "n2 = Vec3 0 0 0" by (cases r; cases n2) simp
  with assms show False by simp
qed

lemma vec3_dot_scale_right: "vec3_dot v (vec3_scale w s) = vec3_dot v w * s"
  by (cases v; cases w) (simp add: algebra_simps)

text \<open>
  With the step reversed the two loops again stop at such a vector, unless the vector one
  step up is exactly as far from \<open>p1\<close>: then they settle on that one.
\<close>

lemma align_loops_reversed:
  assumes c: "0 < vec3_dot n2 n2"
    and lo: "0 \<le> 2 * vec3_dot (vec3_sub r p1) n2 + vec3_dot n2 n2"
    and hi: "2 * vec3_dot (vec3_sub r p1) n2 < vec3_dot n2 n2"
  shows "(case align_add_loop p1 (vec3_scale n2 (- 1)) r of
            None \<Rightarrow> None
          | Some q \<Rightarrow> align_sub_loop p1 (vec3_scale n2 (- 1)) q)
       = (if 2 * vec3_dot (vec3_sub r p1) n2 + vec3_dot n2 n2 = 0
          then Some (vec3_add r n2) else Some r)"
proof -
  let ?n = "vec3_scale n2 (- 1)"
  have add: "align_add_loop p1 ?n r = Some r"
  proof (rule align_add_loop_break_dot)
    show "0 < 2 * vec3_dot (vec3_sub r p1) ?n + vec3_dot ?n ?n"
      using hi by (simp add: vec3_dot_reversed vec3_dot_reversed_left)
  qed
  show ?thesis
  proof (cases "2 * vec3_dot (vec3_sub r p1) n2 + vec3_dot n2 n2 = 0")
    case False
    with lo have "0 < 2 * vec3_dot (vec3_sub r p1) n2 + vec3_dot n2 n2" by simp
    then have "2 * vec3_dot (vec3_sub r p1) ?n < vec3_dot ?n ?n"
      by (simp add: vec3_dot_reversed vec3_dot_reversed_left)
    then have "align_sub_loop p1 ?n r = Some r"
      by (rule align_sub_loop_break_dot)
    with add False show ?thesis by simp
  next
    case True
    have "vec3_dot ?n ?n \<le> 2 * vec3_dot (vec3_sub r p1) ?n"
      using True by (simp add: vec3_dot_reversed vec3_dot_reversed_left)
    then have "align_sub_loop p1 ?n r = align_sub_loop p1 ?n (vec3_sub r ?n)"
      by (rule align_sub_loop_step_dot)
    also have "\<dots> = align_sub_loop p1 ?n (vec3_add r n2)"
      by (simp add: vec3_sub_reversed)
    also have "\<dots> = Some (vec3_add r n2)"
    proof (rule align_sub_loop_break_dot)
      show "2 * vec3_dot (vec3_sub (vec3_add r n2) p1) ?n < vec3_dot ?n ?n"
        using True c by (simp add: vec3_dot_reversed vec3_dot_reversed_left dot_step_add)
    qed
    finally show ?thesis using add True by simp
  qed
qed

text \<open>
  A vector reached from a \<open>p2\<close> that is not near-identity by a multiple of its step is
  a multiple of \<open>p2\<close>; unless it is near-identity itself, its step is that of \<open>p2\<close> or
  the reverse.
\<close>

lemma vec3_scale_scale: "vec3_scale (vec3_scale v a) b = vec3_scale v (a * b)"
  by (cases v) (simp add: algebra_simps)

lemma vec3_add_scale_self: "vec3_add v (vec3_scale (vec3_scale v a) m) = vec3_scale v (1 + a * m)"
  by (cases v) (simp add: algebra_simps)

lemma periodicity_step_multiple:
  assumes p2: "\<not> norm3 p2 < 1 / 10 ^ 6" and r: "\<not> norm3 r < 1 / 10 ^ 6"
    and step: "periodicity_step p1 p2 = Some n2"
    and mult: "r = vec3_add p2 (vec3_scale n2 m)"
  shows "periodicity_step p1 r = Some n2 \<or> periodicity_step p1 r = Some (vec3_scale n2 (- 1))"
proof -
  define l where "l = norm3 p2"
  define s where "s = 1 + 2 * pi / l * m"
  have l: "0 < l" using p2 unfolding l_def by simp
  have n2: "n2 = vec3_scale p2 (2 * pi / l)"
    using step p2 by (simp add: periodicity_step_def l_def)
  have rs: "r = vec3_scale p2 s"
    unfolding mult n2 s_def by (rule vec3_add_scale_self)
  have nr: "norm3 r = \<bar>s\<bar> * l"
    unfolding rs l_def by (rule norm3_scale)
  have "0 < norm3 r" using r by simp
  then have s0: "s \<noteq> 0" unfolding nr by auto
  have "periodicity_step p1 r = Some (vec3_scale r (2 * pi / norm3 r))"
    using r by (simp add: periodicity_step_def)
  then have pr: "periodicity_step p1 r = Some (vec3_scale p2 (s * (2 * pi / (\<bar>s\<bar> * l))))"
    unfolding nr unfolding rs vec3_scale_scale .
  show ?thesis
  proof (cases "0 < s")
    case True
    then have "s * (2 * pi / (\<bar>s\<bar> * l)) = 2 * pi / l" by simp
    then show ?thesis using pr n2 by simp
  next
    case False
    with s0 have "s < 0" by simp
    then have "s * (2 * pi / (\<bar>s\<bar> * l)) = 2 * pi / l * (- 1)" by simp
    then have "periodicity_step p1 r = Some (vec3_scale n2 (- 1))"
      using pr unfolding n2 vec3_scale_scale by simp
    then show ?thesis by simp
  qed
qed

lemma periodicity_step_None:
  "periodicity_step p1 p2 = None \<Longrightarrow> norm3 p2 < 1 / 10 ^ 6"
  by (simp add: periodicity_step_def split: if_splits)

text \<open>
  Where the subtract loop does not stop at once, it does not return its start.
\<close>

lemma align_sub_loop_moves:
  assumes c: "0 < vec3_dot n2 n2"
    and far: "vec3_dot n2 n2 \<le> 2 * vec3_dot (vec3_sub q p1) n2"
  shows "align_sub_loop p1 n2 q \<noteq> Some q"
proof
  assume eq: "align_sub_loop p1 n2 q = Some q"
  from align_sub_loop_result [OF c, of p1 q]
  obtain k where k: "align_sub_loop p1 n2 q = Some (((\<lambda>v. vec3_sub v n2) ^^ k) q)"
    and stop: "norm3 (vec3_sub (((\<lambda>v. vec3_sub v n2) ^^ Suc k) q) p1)
         > norm3 (vec3_sub (((\<lambda>v. vec3_sub v n2) ^^ k) q) p1)"
    by blast
  from eq k have "((\<lambda>v. vec3_sub v n2) ^^ k) q = q" by simp
  with stop have "norm3 (vec3_sub (vec3_sub q n2) p1) > norm3 (vec3_sub q p1)" by simp
  then have "2 * vec3_dot (vec3_sub q p1) n2 < vec3_dot n2 n2"
    by (simp add: farther_sub_iff)
  with far show False by simp
qed

lemma align_example:
  "align_angle_axis_vectors (Vec3 (2 * pi) 0 0) (Vec3 1 0 0) = Some (Vec3 (1 + 2 * pi) 0 0)"
proof -
  let ?p1 = "Vec3 (2 * pi) 0 0" and ?n2 = "Vec3 (2 * pi) 0 0"
  have step: "periodicity_step ?p1 (Vec3 1 0 0) = Some ?n2"
    by (simp add: periodicity_step_def)
  have "align_add_loop ?p1 ?n2 (Vec3 1 0 0) = align_add_loop ?p1 ?n2 (Vec3 (1 + 2 * pi) 0 0)"
    using pi_ge_two by (subst align_add_loop_step) (simp_all add: norm3_axis del: norm3.simps)
  also have "\<dots> = Some (Vec3 (1 + 2 * pi) 0 0)"
    using pi_ge_two by (subst align_add_loop_break) (simp_all add: norm3_axis del: norm3.simps)
  finally have add: "align_add_loop ?p1 ?n2 (Vec3 1 0 0) = Some (Vec3 (1 + 2 * pi) 0 0)" .
  have sub: "align_sub_loop ?p1 ?n2 (Vec3 (1 + 2 * pi) 0 0) = Some (Vec3 (1 + 2 * pi) 0 0)"
    using pi_ge_two by (subst align_sub_loop_break) (simp_all add: norm3_axis del: norm3.simps)
  show ?thesis
    by (simp add: align_angle_axis_vectors_def step add sub del: norm3.simps)
qed

lemma align_example_against:
  "align_angle_axis_vectors (Vec3 (- (pi / 2)) 0 0) (Vec3 pi 0 0) = Some (Vec3 (- pi) 0 0)"
proof -
  let ?p1 = "Vec3 (- (pi / 2)) 0 0" and ?n2 = "Vec3 (2 * pi) 0 0"
  have step: "periodicity_step ?p1 (Vec3 pi 0 0) = Some ?n2"
    using pi_ge_two by (simp add: periodicity_step_def norm3_axis del: norm3.simps)
  have add: "align_add_loop ?p1 ?n2 (Vec3 pi 0 0) = Some (Vec3 pi 0 0)"
    using pi_ge_two by (subst align_add_loop_break) (simp_all add: norm3_axis del: norm3.simps)
  have "align_sub_loop ?p1 ?n2 (Vec3 pi 0 0) = align_sub_loop ?p1 ?n2 (Vec3 (- pi) 0 0)"
    using pi_ge_two by (subst align_sub_loop_step) (simp_all add: norm3_axis del: norm3.simps)
  also have "\<dots> = Some (Vec3 (- pi) 0 0)"
    using pi_ge_two by (subst align_sub_loop_break) (simp_all add: norm3_axis del: norm3.simps)
  finally have sub: "align_sub_loop ?p1 ?n2 (Vec3 pi 0 0) = Some (Vec3 (- pi) 0 0)" .
  show ?thesis
    by (simp add: align_angle_axis_vectors_def step add sub del: norm3.simps)
qed

lemma align_example_tie:
  "align_angle_axis_vectors (Vec3 0 0 0) (Vec3 pi 0 0) = Some (Vec3 (- pi) 0 0)"
proof -
  let ?p1 = "Vec3 0 0 0 :: real vec3" and ?n2 = "Vec3 (2 * pi) 0 0"
  have step: "periodicity_step ?p1 (Vec3 pi 0 0) = Some ?n2"
    using pi_ge_two by (simp add: periodicity_step_def norm3_axis del: norm3.simps)
  have add: "align_add_loop ?p1 ?n2 (Vec3 pi 0 0) = Some (Vec3 pi 0 0)"
    using pi_ge_two by (subst align_add_loop_break) (simp_all add: norm3_axis del: norm3.simps)
  have "align_sub_loop ?p1 ?n2 (Vec3 pi 0 0) = align_sub_loop ?p1 ?n2 (Vec3 (- pi) 0 0)"
    by (subst align_sub_loop_step) (simp_all add: norm3_axis del: norm3.simps)
  also have "\<dots> = Some (Vec3 (- pi) 0 0)"
    using pi_ge_two by (subst align_sub_loop_break) (simp_all add: norm3_axis del: norm3.simps)
  finally have sub: "align_sub_loop ?p1 ?n2 (Vec3 pi 0 0) = Some (Vec3 (- pi) 0 0)" .
  show ?thesis
    by (simp add: align_angle_axis_vectors_def step add sub del: norm3.simps)
qed

text \<open>
  Claim C7, as amended. \<^verbatim>\<open>align_angle_axis_vectors\<close> returns for all \<open>p1\<close> and \<open>p2\<close>. Its
  result is \<open>p2\<close> itself or \<open>p2\<close> plus an integer multiple of the periodicity step \<open>n2\<close>, and
  is no farther from \<open>p1\<close> than \<open>p2\<close> is. It is a fixed point of the alignment against \<open>p1\<close>
  whenever it has the periodicity step that \<open>p2\<close> has, or none. When it has the opposite
  step \<open>- n2\<close>, it is a fixed point unless the result plus \<open>n2\<close> is exactly as far from \<open>p1\<close>
  as the result is; on such a tie the second alignment returns the result plus \<open>n2\<close>, a
  different vector. When neither \<open>p2\<close> nor the result is near-identity, the step of the
  result is \<open>n2\<close> or \<open>- n2\<close>, so that the result then fails to be a fixed point only when it
  points against \<open>p2\<close> on an exact tie. That the result is the same rotation as \<open>p2\<close> is
  stated as the claim does, by the multiple of the step: the rotation matrix of a vector
  is not part of the sources.
\<close>

theorem align_result_properties:
  "\<exists>r. align_angle_axis_vectors p1 p2 = Some r
     \<and> (case periodicity_step p1 p2 of
          None \<Rightarrow> r = p2
        | Some n2 \<Rightarrow> \<exists>m :: int. r = vec3_add p2 (vec3_scale n2 (real_of_int m)))
     \<and> norm3 (vec3_sub r p1) \<le> norm3 (vec3_sub p2 p1)
     \<and> (periodicity_step p1 r = periodicity_step p1 p2 \<longrightarrow> align_angle_axis_vectors p1 r = Some r)
     \<and> (periodicity_step p1 r = None \<longrightarrow> align_angle_axis_vectors p1 r = Some r)
     \<and> (\<forall>n2. periodicity_step p1 p2 = Some n2 \<and> periodicity_step p1 r = Some (vec3_scale n2 (- 1))
          \<longrightarrow> align_angle_axis_vectors p1 r =
              (if norm3 (vec3_sub (vec3_add r n2) p1) = norm3 (vec3_sub r p1)
               then Some (vec3_add r n2) else Some r)
            \<and> vec3_add r n2 \<noteq> r)
     \<and> (\<not> norm3 p2 < 1 / 10 ^ 6 \<and> \<not> norm3 r < 1 / 10 ^ 6
          \<longrightarrow> (\<exists>n2. periodicity_step p1 p2 = Some n2
                \<and> (periodicity_step p1 r = Some n2
                   \<or> periodicity_step p1 r = Some (vec3_scale n2 (- 1)))))"
proof (cases "periodicity_step p1 p2")
  case None
  then have "align_angle_axis_vectors p1 p2 = Some p2"
    by (simp add: align_angle_axis_vectors_def)
  moreover have "norm3 p2 < 1 / 10 ^ 6"
    using None by (rule periodicity_step_None)
  ultimately show ?thesis using None by simp
next
  case (Some n2)
  let ?add = "\<lambda>v. vec3_add v n2" and ?sub = "\<lambda>v. vec3_sub v n2"
  have c: "0 < vec3_dot n2 n2" using Some by (rule periodicity_step_Some)
  from align_loops_run [OF Some]
  obtain k j where mono_add: "\<forall>i<k. norm3 (vec3_sub ((?add ^^ Suc i) p2) p1)
             \<le> norm3 (vec3_sub ((?add ^^ i) p2) p1)"
    and stop_add: "norm3 (vec3_sub ((?add ^^ Suc k) p2) p1) > norm3 (vec3_sub ((?add ^^ k) p2) p1)"
    and mono_sub: "\<forall>i<j. norm3 (vec3_sub ((?sub ^^ Suc i) ((?add ^^ k) p2)) p1)
             \<le> norm3 (vec3_sub ((?sub ^^ i) ((?add ^^ k) p2)) p1)"
    and stop_sub: "norm3 (vec3_sub ((?sub ^^ Suc j) ((?add ^^ k) p2)) p1)
         > norm3 (vec3_sub ((?sub ^^ j) ((?add ^^ k) p2)) p1)"
    and result: "align_angle_axis_vectors p1 p2 = Some ((?sub ^^ j) ((?add ^^ k) p2))"
    by blast
  let ?a = "(?add ^^ k) p2"
  define r where "r = (?sub ^^ j) ?a"
  have multiple: "r = vec3_add p2 (vec3_scale n2 (real_of_int (int k - int j)))"
    unfolding r_def funpow_add_scale funpow_sub_scale
    by (cases p2; cases n2) (simp add: algebra_simps)
  have "norm3 (vec3_sub r p1) \<le> norm3 (vec3_sub ?a p1)"
    unfolding r_def using mono_sub by (rule chain_le [where d = "\<lambda>v. norm3 (vec3_sub v p1)"])
  moreover have "norm3 (vec3_sub ?a p1) \<le> norm3 (vec3_sub p2 p1)"
    using mono_add by (rule chain_le [where d = "\<lambda>v. norm3 (vec3_sub v p1)"])
  ultimately have closer: "norm3 (vec3_sub r p1) \<le> norm3 (vec3_sub p2 p1)" by simp
  have hi: "2 * vec3_dot (vec3_sub r p1) n2 < vec3_dot n2 n2"
    unfolding r_def using stop_sub by (simp add: farther_sub_iff)
  have lo: "0 \<le> 2 * vec3_dot (vec3_sub r p1) n2 + vec3_dot n2 n2"
  proof (cases j)
    case 0
    then show ?thesis unfolding r_def using stop_add by (simp add: farther_add_iff)
  next
    case (Suc j')
    then have "norm3 (vec3_sub (vec3_sub ((?sub ^^ j') ?a) n2) p1)
        \<le> norm3 (vec3_sub ((?sub ^^ j') ?a) p1)"
      using mono_sub by simp
    then have "\<not> norm3 (vec3_sub (vec3_sub ((?sub ^^ j') ?a) n2) p1)
        > norm3 (vec3_sub ((?sub ^^ j') ?a) p1)"
      by simp
    then have "vec3_dot n2 n2 \<le> 2 * vec3_dot (vec3_sub ((?sub ^^ j') ?a) p1) n2"
      unfolding farther_sub_iff by simp
    then show ?thesis
      unfolding r_def Suc by (simp add: dot_step_sub)
  qed
  have run: "align_angle_axis_vectors p1 p2 = Some r"
    unfolding r_def by (rule result)
  have "\<exists>m :: int. r = vec3_add p2 (vec3_scale n2 (real_of_int m))"
    using multiple by (rule exI)
  then have ex: "case periodicity_step p1 p2 of
          None \<Rightarrow> r = p2
        | Some n2 \<Rightarrow> \<exists>m :: int. r = vec3_add p2 (vec3_scale n2 (real_of_int m))"
    by (simp add: Some)
  have same: "periodicity_step p1 r = periodicity_step p1 p2 \<longrightarrow> align_angle_axis_vectors p1 r = Some r"
    using Some align_loops_fixed [OF c lo hi]
    by (simp add: align_angle_axis_vectors_def)
  have none: "periodicity_step p1 r = None \<longrightarrow> align_angle_axis_vectors p1 r = Some r"
    by (simp add: align_angle_axis_vectors_def)
  have reversed: "\<forall>n. periodicity_step p1 p2 = Some n \<and> periodicity_step p1 r = Some (vec3_scale n (- 1))
          \<longrightarrow> align_angle_axis_vectors p1 r =
              (if norm3 (vec3_sub (vec3_add r n) p1) = norm3 (vec3_sub r p1)
               then Some (vec3_add r n) else Some r)
            \<and> vec3_add r n \<noteq> r"
    using align_loops_reversed [OF c lo hi] vec3_add_neq [OF c, of r]
    by (simp add: Some align_angle_axis_vectors_def tie_add_iff)
  have steps: "\<not> norm3 p2 < 1 / 10 ^ 6 \<and> \<not> norm3 r < 1 / 10 ^ 6
          \<longrightarrow> (\<exists>n. periodicity_step p1 p2 = Some n
                \<and> (periodicity_step p1 r = Some n
                   \<or> periodicity_step p1 r = Some (vec3_scale n (- 1))))"
    using periodicity_step_multiple [OF _ _ Some multiple] by (simp add: Some)
  show ?thesis
    by (rule exI [of _ r]) (intro conjI run ex closer same none reversed steps)
qed

theorem align_result_properties_witness:
  "align_angle_axis_vectors (Vec3 (2 * pi) 0 0) (Vec3 (1 + 2 * pi) 0 0) = Some (Vec3 (1 + 2 * pi) 0 0)
   \<and> norm3 (vec3_sub (Vec3 (1 + 2 * pi) 0 0) (Vec3 (2 * pi) 0 0))
       \<le> norm3 (vec3_sub (Vec3 1 0 0) (Vec3 (2 * pi) 0 0))
   \<and> align_angle_axis_vectors (Vec3 (- (pi / 2)) 0 0) (Vec3 (- pi) 0 0) = Some (Vec3 (- pi) 0 0)
   \<and> align_angle_axis_vectors (Vec3 0 0 0) (Vec3 (- pi) 0 0) = Some (Vec3 pi 0 0)"
proof -
  let ?n2 = "Vec3 (2 * pi) 0 0"
  have same: "align_angle_axis_vectors (Vec3 (2 * pi) 0 0) (Vec3 (1 + 2 * pi) 0 0) = Some (Vec3 (1 + 2 * pi) 0 0)
     \<and> norm3 (vec3_sub (Vec3 (1 + 2 * pi) 0 0) (Vec3 (2 * pi) 0 0))
       \<le> norm3 (vec3_sub (Vec3 1 0 0) (Vec3 (2 * pi) 0 0))"
  proof -
    let ?p1 = "Vec3 (2 * pi) 0 0" and ?p2 = "Vec3 1 0 0" and ?r = "Vec3 (1 + 2 * pi) 0 0"
    from align_result_properties [of ?p1 ?p2]
    obtain r where run: "align_angle_axis_vectors ?p1 ?p2 = Some r"
      and closer: "norm3 (vec3_sub r ?p1) \<le> norm3 (vec3_sub ?p2 ?p1)"
      and fixed: "periodicity_step ?p1 r = periodicity_step ?p1 ?p2 \<longrightarrow>
        align_angle_axis_vectors ?p1 r = Some r"
      by (elim exE conjE)
    have r: "r = ?r" using run by (simp add: align_example)
    have "periodicity_step ?p1 ?r = periodicity_step ?p1 ?p2"
      using pi_ge_two by (simp add: periodicity_step_def norm3_axis del: norm3.simps)
    with fixed closer show ?thesis unfolding r by simp
  qed
  have against: "align_angle_axis_vectors (Vec3 (- (pi / 2)) 0 0) (Vec3 (- pi) 0 0) = Some (Vec3 (- pi) 0 0)"
  proof -
    let ?p1 = "Vec3 (- (pi / 2)) 0 0" and ?p2 = "Vec3 pi 0 0" and ?r = "Vec3 (- pi) 0 0"
    from align_result_properties [of ?p1 ?p2]
    obtain r where run: "align_angle_axis_vectors ?p1 ?p2 = Some r"
      and reversed: "\<forall>n2. periodicity_step ?p1 ?p2 = Some n2
          \<and> periodicity_step ?p1 r = Some (vec3_scale n2 (- 1))
          \<longrightarrow> align_angle_axis_vectors ?p1 r =
              (if norm3 (vec3_sub (vec3_add r n2) ?p1) = norm3 (vec3_sub r ?p1)
               then Some (vec3_add r n2) else Some r)
            \<and> vec3_add r n2 \<noteq> r"
      by (elim exE conjE)
    have r: "r = ?r" using run by (simp add: align_example_against)
    have "periodicity_step ?p1 ?p2 = Some ?n2"
      using pi_ge_two by (simp add: periodicity_step_def norm3_axis del: norm3.simps)
    moreover have "periodicity_step ?p1 ?r = Some (vec3_scale ?n2 (- 1))"
      using pi_ge_two by (simp add: periodicity_step_def norm3_axis del: norm3.simps)
    ultimately have "align_angle_axis_vectors ?p1 ?r =
        (if norm3 (vec3_sub (vec3_add ?r ?n2) ?p1) = norm3 (vec3_sub ?r ?p1)
         then Some (vec3_add ?r ?n2) else Some ?r)"
      using reversed unfolding r by blast
    then show ?thesis
      using pi_ge_two by (simp add: norm3_axis del: norm3.simps)
  qed
  have tie: "align_angle_axis_vectors (Vec3 0 0 0) (Vec3 (- pi) 0 0) = Some (Vec3 pi 0 0)"
  proof -
    let ?p1 = "Vec3 0 0 0 :: real vec3" and ?p2 = "Vec3 pi 0 0" and ?r = "Vec3 (- pi) 0 0"
    from align_result_properties [of ?p1 ?p2]
    obtain r where run: "align_angle_axis_vectors ?p1 ?p2 = Some r"
      and reversed: "\<forall>n2. periodicity_step ?p1 ?p2 = Some n2
          \<and> periodicity_step ?p1 r = Some (vec3_scale n2 (- 1))
          \<longrightarrow> align_angle_axis_vectors ?p1 r =
              (if norm3 (vec3_sub (vec3_add r n2) ?p1) = norm3 (vec3_sub r ?p1)
               then Some (vec3_add r n2) else Some r)
            \<and> vec3_add r n2 \<noteq> r"
      by (elim exE conjE)
    have r: "r = ?r" using run by (simp add: align_example_tie)
    have "periodicity_step ?p1 ?p2 = Some ?n2"
      using pi_ge_two by (simp add: periodicity_step_def norm3_axis del: norm3.simps)
    moreover have "periodicity_step ?p1 ?r = Some (vec3_scale ?n2 (- 1))"
      using pi_ge_two by (simp add: periodicity_step_def norm3_axis del: norm3.simps)
    ultimately have "align_angle_axis_vectors ?p1 ?r =
        (if norm3 (vec3_sub (vec3_add ?r ?n2) ?p1) = norm3 (vec3_sub ?r ?p1)
         then Some (vec3_add ?r ?n2) else Some ?r)"
      using reversed unfolding r by blast
    then show ?thesis
      by (simp add: norm3_axis del: norm3.simps)
  qed
  from same against tie show ?thesis by simp
qed

text \<open>
  Claim C7 as stated has every result a fixed point. A result that points against \<open>p2\<close> has
  the opposite periodicity step, and on a tie the two loops then settle on the other of
  the two equally distant vectors: aligning \<open>(pi, 0, 0)\<close> against the zero vector gives
  \<open>(- pi, 0, 0)\<close>, and aligning that again gives \<open>(pi, 0, 0)\<close>.
\<close>

theorem align_not_idempotent_counterexample:
  "align_angle_axis_vectors (Vec3 0 0 0) (Vec3 pi 0 0) = Some (Vec3 (- pi) 0 0)
   \<and> align_angle_axis_vectors (Vec3 0 0 0) (Vec3 (- pi) 0 0) = Some (Vec3 pi 0 0)
   \<and> Vec3 pi 0 0 \<noteq> Vec3 (- pi) 0 0"
proof -
  let ?p1 = "Vec3 0 0 0 :: real vec3"
  have step1: "periodicity_step ?p1 (Vec3 pi 0 0) = Some (Vec3 (2 * pi) 0 0)"
    using pi_ge_two by (simp add: periodicity_step_def norm3_axis del: norm3.simps)
  have add1: "align_add_loop ?p1 (Vec3 (2 * pi) 0 0) (Vec3 pi 0 0) = Some (Vec3 pi 0 0)"
    using pi_ge_two by (subst align_add_loop_break) (simp_all add: norm3_axis del: norm3.simps)
  have "align_sub_loop ?p1 (Vec3 (2 * pi) 0 0) (Vec3 pi 0 0)
      = align_sub_loop ?p1 (Vec3 (2 * pi) 0 0) (Vec3 (- pi) 0 0)"
    by (subst align_sub_loop_step) (simp_all add: norm3_axis del: norm3.simps)
  also have "\<dots> = Some (Vec3 (- pi) 0 0)"
    using pi_ge_two by (subst align_sub_loop_break) (simp_all add: norm3_axis del: norm3.simps)
  finally have sub1: "align_sub_loop ?p1 (Vec3 (2 * pi) 0 0) (Vec3 pi 0 0) = Some (Vec3 (- pi) 0 0)" .
  have first: "align_angle_axis_vectors ?p1 (Vec3 pi 0 0) = Some (Vec3 (- pi) 0 0)"
    by (simp add: align_angle_axis_vectors_def step1 add1 sub1 del: norm3.simps)
  have step2: "periodicity_step ?p1 (Vec3 (- pi) 0 0) = Some (Vec3 (- (2 * pi)) 0 0)"
    using pi_ge_two by (simp add: periodicity_step_def norm3_axis del: norm3.simps)
  have add2: "align_add_loop ?p1 (Vec3 (- (2 * pi)) 0 0) (Vec3 (- pi) 0 0) = Some (Vec3 (- pi) 0 0)"
    using pi_ge_two by (subst align_add_loop_break) (simp_all add: norm3_axis del: norm3.simps)
  have "align_sub_loop ?p1 (Vec3 (- (2 * pi)) 0 0) (Vec3 (- pi) 0 0)
      = align_sub_loop ?p1 (Vec3 (- (2 * pi)) 0 0) (Vec3 pi 0 0)"
    by (subst align_sub_loop_step) (simp_all add: norm3_axis del: norm3.simps)
  also have "\<dots> = Some (Vec3 pi 0 0)"
    using pi_ge_two by (subst align_sub_loop_break) (simp_all add: norm3_axis del: norm3.simps)
  finally have sub2: "align_sub_loop ?p1 (Vec3 (- (2 * pi)) 0 0) (Vec3 (- pi) 0 0) = Some (Vec3 pi 0 0)" .
  have second: "align_angle_axis_vectors ?p1 (Vec3 (- pi) 0 0) = Some (Vec3 pi 0 0)"
    by (simp add: align_angle_axis_vectors_def step2 add2 sub2 del: norm3.simps)
  from first second show ?thesis using pi_ge_two by simp
qed

text \<open>
  A tie is not needed. The result of aligning \<open>(2 * pi, 0, 0)\<close> against \<open>(0, 4, 0)\<close> is
  the zero vector, whose periodicity step is taken from \<open>p1\<close>: aligned again, it moves to
  \<open>(0, 2 * pi, 0)\<close>, which is nearer to \<open>p1\<close>.
\<close>

lemma align_not_idempotent_near_identity:
  "align_angle_axis_vectors (Vec3 0 4 0) (Vec3 (2 * pi) 0 0) = Some (Vec3 0 0 0)
   \<and> align_angle_axis_vectors (Vec3 0 4 0) (Vec3 0 0 0) = Some (Vec3 0 (2 * pi) 0)"
proof -
  let ?p1 = "Vec3 0 4 0 :: real vec3"
  have step1: "periodicity_step ?p1 (Vec3 (2 * pi) 0 0) = Some (Vec3 (2 * pi) 0 0)"
    using pi_ge_two by (simp add: periodicity_step_def norm3_axis del: norm3.simps)
  have add1: "align_add_loop ?p1 (Vec3 (2 * pi) 0 0) (Vec3 (2 * pi) 0 0) = Some (Vec3 (2 * pi) 0 0)"
    using pi_ge_two by (subst align_add_loop_break_dot) simp_all
  have "align_sub_loop ?p1 (Vec3 (2 * pi) 0 0) (Vec3 (2 * pi) 0 0)
      = align_sub_loop ?p1 (Vec3 (2 * pi) 0 0) (Vec3 0 0 0)"
    using pi_ge_two by (subst align_sub_loop_step_dot) simp_all
  also have "\<dots> = Some (Vec3 0 0 0)"
    using pi_ge_two by (subst align_sub_loop_break_dot) simp_all
  finally have sub1: "align_sub_loop ?p1 (Vec3 (2 * pi) 0 0) (Vec3 (2 * pi) 0 0) = Some (Vec3 0 0 0)" .
  have first: "align_angle_axis_vectors ?p1 (Vec3 (2 * pi) 0 0) = Some (Vec3 0 0 0)"
    by (simp add: align_angle_axis_vectors_def step1 add1 sub1 del: norm3.simps)
  have nl1: "0 < pi * (3 * pi - 4)"
    using pi_ge_two by (intro mult_pos_pos) simp_all
  have nl2: "pi * (pi - 4) < 0"
    using pi_less_4 pi_ge_two by (intro mult_pos_neg) simp_all
  have step2: "periodicity_step ?p1 (Vec3 0 0 0) = Some (Vec3 0 (2 * pi) 0)"
    by (simp add: periodicity_step_def norm3_axis_y del: norm3.simps)
  have "align_add_loop ?p1 (Vec3 0 (2 * pi) 0) (Vec3 0 0 0)
      = align_add_loop ?p1 (Vec3 0 (2 * pi) 0) (Vec3 0 (2 * pi) 0)"
    using nl2 by (subst align_add_loop_step_dot) (simp_all add: algebra_simps)
  also have "\<dots> = Some (Vec3 0 (2 * pi) 0)"
    using nl1 by (subst align_add_loop_break_dot) (simp_all add: algebra_simps)
  finally have add2: "align_add_loop ?p1 (Vec3 0 (2 * pi) 0) (Vec3 0 0 0) = Some (Vec3 0 (2 * pi) 0)" .
  have sub2: "align_sub_loop ?p1 (Vec3 0 (2 * pi) 0) (Vec3 0 (2 * pi) 0) = Some (Vec3 0 (2 * pi) 0)"
    using nl2 by (subst align_sub_loop_break_dot) (simp_all add: algebra_simps)
  have second: "align_angle_axis_vectors ?p1 (Vec3 0 0 0) = Some (Vec3 0 (2 * pi) 0)"
    by (simp add: align_angle_axis_vectors_def step2 add2 sub2 del: norm3.simps)
  from first second show ?thesis by simp
qed

text \<open>
  Nor is a near-identity result needed. A near-identity \<open>p2\<close> takes its step from \<open>p1\<close>, and
  a result that is not near-identity takes its step from itself, in a slightly different
  direction. With \<open>p1\<close> within \<open>pi / (4 * 10 ^ 14)\<close> of a tie, the result \<open>(2 * pi, pi / 10 ^ 7, 0)\<close>
  of aligning \<open>(0, pi / 10 ^ 7, 0)\<close> is one step of its own away from a vector nearer
  to \<open>p1\<close>.
\<close>

lemma align_not_idempotent_near_identity_input:
  "align_angle_axis_vectors (Vec3 (pi + pi / (4 * 10 ^ 14)) 0 0) (Vec3 0 (pi / 10 ^ 7) 0)
     = Some (Vec3 (2 * pi) (pi / 10 ^ 7) 0)
   \<and> align_angle_axis_vectors (Vec3 (pi + pi / (4 * 10 ^ 14)) 0 0) (Vec3 (2 * pi) (pi / 10 ^ 7) 0)
     \<noteq> Some (Vec3 (2 * pi) (pi / 10 ^ 7) 0)"
proof -
  define P where "P = pi + pi / (4 * 10 ^ 14)"
  define y where "y = pi / 10 ^ 7"
  let ?p1 = "Vec3 P 0 0" and ?p2 = "Vec3 0 y 0" and ?n2 = "Vec3 (2 * pi) 0 0"
  let ?r = "Vec3 (2 * pi) y 0"
  have P: "pi < P" "P < 3 * pi" using pi_gt_zero unfolding P_def by simp_all
  have y: "0 < y" "y < 1 / 10 ^ 6" using pi_gt_zero pi_less_4 unfolding y_def by simp_all
  have P0: "0 < P" using P pi_gt_zero by simp
  have step1: "periodicity_step ?p1 ?p2 = Some ?n2"
    using P0 y pi_ge_two P by (simp add: periodicity_step_def norm3_axis norm3_axis_y del: norm3.simps)
  have nl1: "0 < pi * (P - pi)" using P pi_gt_zero by (intro mult_pos_pos) simp_all
  have nl2: "0 < pi * (3 * pi - P)" using P pi_gt_zero by (intro mult_pos_pos) simp_all
  have "align_add_loop ?p1 ?n2 ?p2 = align_add_loop ?p1 ?n2 ?r"
    using nl1 by (subst align_add_loop_step_dot) (simp_all add: algebra_simps)
  also have "\<dots> = Some ?r"
    using nl2 by (subst align_add_loop_break_dot) (simp_all add: algebra_simps)
  finally have add1: "align_add_loop ?p1 ?n2 ?p2 = Some ?r" .
  have sub1: "align_sub_loop ?p1 ?n2 ?r = Some ?r"
    using nl1 by (subst align_sub_loop_break_dot) (simp_all add: algebra_simps)
  have first: "align_angle_axis_vectors ?p1 ?p2 = Some ?r"
    by (simp add: align_angle_axis_vectors_def step1 add1 sub1 del: norm3.simps)
  define t where "t = norm3 ?r"
  have t2: "t * t = 2 * pi * (2 * pi) + y * y"
    unfolding t_def by (simp add: power2_eq_square [symmetric])
  have tlo: "2 * pi \<le> t"
    unfolding t_def by (simp add: real_le_rsqrt power2_eq_square)
  have q: "(4 + 1 / 10 ^ 14 :: real) \<le> (2 + 1 / (2 * 10 ^ 14))\<^sup>2"
    by (simp add: power2_eq_square)
  have "2 * pi * (2 * pi) + y * y = pi\<^sup>2 * (4 + 1 / 10 ^ 14)"
    unfolding y_def by (simp add: power2_eq_square algebra_simps)
  also have "\<dots> \<le> pi\<^sup>2 * (2 + 1 / (2 * 10 ^ 14))\<^sup>2"
    using q by (rule mult_left_mono) simp
  also have "\<dots> = (2 * pi + pi / (2 * 10 ^ 14))\<^sup>2"
    by (simp add: power2_eq_square algebra_simps)
  finally have "2 * pi * (2 * pi) + y * y \<le> (2 * pi + pi / (2 * 10 ^ 14))\<^sup>2" .
  then have "sqrt (2 * pi * (2 * pi) + y * y) \<le> 2 * pi + pi / (2 * 10 ^ 14)"
    using pi_gt_zero by (intro real_le_lsqrt) simp_all
  then have thi: "t \<le> 2 * pi + pi / (2 * 10 ^ 14)"
    unfolding t_def by (simp add: power2_eq_square)
  have t0: "0 < t" using tlo pi_ge_two by simp
  define D where "D = (2 * pi - P) * (2 * pi) + y * y"
  have "pi * t \<le> pi * (2 * pi + pi / (2 * 10 ^ 14))"
    using thi by (rule mult_left_mono) simp
  also have "\<dots> = D"
    unfolding D_def P_def y_def by (simp add: algebra_simps)
  finally have D: "pi * t \<le> D" .
  define n where "n = vec3_scale ?r (2 * pi / t)"
  have step2: "periodicity_step ?p1 ?r = Some n"
    using tlo pi_ge_two
    by (simp add: periodicity_step_def n_def t_def [symmetric] del: norm3.simps vec3_scale.simps)
  have "norm3 n = 2 * pi" using step2 by (rule periodicity_step_Some)
  then have c: "vec3_dot n n = 2 * pi * (2 * pi)"
    by (simp add: vec3_dot_norm3 power2_eq_square)
  have b: "vec3_dot (vec3_sub ?r ?p1) n = D * (2 * pi / t)"
    unfolding n_def vec3_dot_scale_right D_def by simp
  have "2 * pi * (2 * pi) * t \<le> 4 * pi * D"
    using mult_left_mono [OF D, of "4 * pi"] by (simp add: algebra_simps)
  then have far: "vec3_dot n n \<le> 2 * vec3_dot (vec3_sub ?r ?p1) n"
    unfolding b c using t0 by (simp add: field_simps)
  have "0 < D" using D t0 pi_gt_zero
    by (meson less_le_trans mult_pos_pos)
  then have "0 < 2 * vec3_dot (vec3_sub ?r ?p1) n + vec3_dot n n"
    unfolding b c using t0 pi_gt_zero by (intro add_pos_pos mult_pos_pos divide_pos_pos) simp_all
  then have add2: "align_add_loop ?p1 n ?r = Some ?r"
    by (rule align_add_loop_break_dot)
  have "0 < vec3_dot n n" unfolding c by simp
  then have "align_sub_loop ?p1 n ?r \<noteq> Some ?r"
    using far by (rule align_sub_loop_moves)
  then have second: "align_angle_axis_vectors ?p1 ?r \<noteq> Some ?r"
    by (simp add: align_angle_axis_vectors_def step2 add2 del: norm3.simps)
  from first second show ?thesis unfolding P_def y_def by simp
qed

subsection \<open>Cluster transform\<close>

lemma concat_rows:
  "concat (map (\<lambda>i. map (F i) [0..<3]) [0..<n]) = map (\<lambda>idx. F (idx div 3) (idx mod 3)) [0..<3 * n]"
proof (induction n)
  case 0
  then show ?case by simp
next
  case (Suc n)
  have dm: "Suc (3 * n) div 3 = n" "Suc (Suc (3 * n)) div 3 = n"
    "Suc (3 * n) mod 3 = 1" "Suc (Suc (3 * n)) mod 3 = 2"
    by presburger+
  show ?case using Suc unfolding upt_3_Suc by (simp add: upt_3 dm)
qed

lemma hacky_mat_mul_eq:
  fixes A :: "'a::semiring_0 list"
  assumes "length A = 3 * n"
  shows "hacky_mat_mul A B = map (\<lambda>idx. \<Sum>k<3. A ! (3 * (idx div 3) + k) * B k (idx mod 3)) [0..<3 * n]"
  using assms
  by (simp add: hacky_mat_mul_def concat_rows foldl_add_upt hacky_index_def mult.commute [of _ "3::nat"])

lemma rotate_site_ok:
  assumes "6 * n \<le> length ys" and "k < n"
  shows "rotate_site rotate_aa dp k \<lparr>ca_nrigid = n, ca_natoms = m, ca_coords = ys\<rparr> =
    (\<lparr>ca_nrigid = n, ca_natoms = m,
      ca_coords = assign_view ys (3 * n + 3 * k) (array_of_vec3 (rotate_aa (vec3_at ys (3 * n + 3 * k)) dp))\<rparr>,
     None)"
proof -
  have "vec3_of_array (take 3 (drop (k * 3) (take (3 * n) (drop (3 * n) ys)))) = vec3_at ys (3 * n + 3 * k)"
    using assms by (simp add: vec3_of_array_def vec3_at_def add.commute mult.commute)
  then show ?thesis
    using assms
    by (simp add: rotate_site_def get_rb_rotations_def view_Inr ca_write_def mult.commute [of k 3])
qed

lemma rotate_loop:
  assumes "6 * n \<le> length xs" and "k \<le> n"
  shows "\<exists>ys. for_sites_inplace (rotate_site rotate_aa dp) [0..<k]
                \<lparr>ca_nrigid = n, ca_natoms = m, ca_coords = xs\<rparr>
              = (\<lparr>ca_nrigid = n, ca_natoms = m, ca_coords = ys\<rparr>, None)
     \<and> length ys = length xs
     \<and> (\<forall>i<k. vec3_at ys (3 * n + 3 * i) = rotate_aa (vec3_at xs (3 * n + 3 * i)) dp)
     \<and> (\<forall>idx<length xs. idx < 3 * n \<or> 3 * n + 3 * k \<le> idx \<longrightarrow> ys ! idx = xs ! idx)"
  using assms(2)
proof (induction k)
  case 0
  then show ?case by simp
next
  case (Suc k)
  then obtain ys where loop: "for_sites_inplace (rotate_site rotate_aa dp) [0..<k]
                \<lparr>ca_nrigid = n, ca_natoms = m, ca_coords = xs\<rparr>
              = (\<lparr>ca_nrigid = n, ca_natoms = m, ca_coords = ys\<rparr>, None)"
    and len: "length ys = length xs"
    and rot: "\<And>i. i < k \<Longrightarrow> vec3_at ys (3 * n + 3 * i) = rotate_aa (vec3_at xs (3 * n + 3 * i)) dp"
    and same: "\<And>idx. idx < length xs \<Longrightarrow> idx < 3 * n \<or> 3 * n + 3 * k \<le> idx \<Longrightarrow> ys ! idx = xs ! idx"
    by auto
  let ?o = "3 * n + 3 * k"
  let ?v = "array_of_vec3 (rotate_aa (vec3_at ys ?o) dp)"
  let ?zs = "assign_view ys ?o ?v"
  have k: "k < n" and bound: "?o + 3 \<le> length ys" using Suc.prems assms(1) len by simp_all
  have step: "for_sites_inplace (rotate_site rotate_aa dp) [0..<Suc k]
                \<lparr>ca_nrigid = n, ca_natoms = m, ca_coords = xs\<rparr>
              = (\<lparr>ca_nrigid = n, ca_natoms = m, ca_coords = ?zs\<rparr>, None)"
    using assms(1) k len by (simp add: for_sites_inplace_append loop rotate_site_ok)
  have lenz: "length ?zs = length xs"
    using bound by (simp add: length_assign_view length_array_of_vec3 len)
  have nthz: "?zs ! i = (if ?o \<le> i \<and> i < ?o + 3 then ?v ! (i - ?o) else ys ! i)" if "i < length ys" for i
    using bound that by (simp add: nth_assign_view length_array_of_vec3)
  have old: "vec3_at ys ?o = vec3_at xs ?o"
    using bound len by (simp add: vec3_at_def same)
  have new: "vec3_at ?zs ?o = rotate_aa (vec3_at xs ?o) dp"
    using bound by (simp add: vec3_at_assign_view_same old)
  have prev: "vec3_at ?zs (3 * n + 3 * i) = rotate_aa (vec3_at xs (3 * n + 3 * i)) dp" if "i < k" for i
    using bound that by (simp add: vec3_at_assign_view_other rot)
  have rot': "\<forall>i<Suc k. vec3_at ?zs (3 * n + 3 * i) = rotate_aa (vec3_at xs (3 * n + 3 * i)) dp"
    using new prev by (auto simp: less_Suc_eq)
  have same': "\<forall>idx<length xs. idx < 3 * n \<or> 3 * n + 3 * Suc k \<le> idx \<longrightarrow> ?zs ! idx = xs ! idx"
    using len by (auto simp: nthz same)
  show ?case using step lenz rot' same' by blast
qed

lemma rotate_rigid_bodies_ok:
  fixes x :: "'a::semiring_0 list"
  assumes "6 * n \<le> length x"
  shows "\<exists>x'. rotate_rigid_bodies rot_mat_to_aa rotate_aa n
               \<lparr>ca_nrigid = n, ca_natoms = m, ca_coords = x\<rparr> mx
             = (\<lparr>ca_nrigid = n, ca_natoms = m, ca_coords = x'\<rparr>, None)
     \<and> length x' = length x
     \<and> (\<forall>i<n. \<forall>j<3. x' ! (3 * i + j) = (\<Sum>k<3. x ! (3 * i + k) * mx j k))
     \<and> (\<forall>i<n. vec3_at x' (3 * n + 3 * i) = rotate_aa (vec3_at x (3 * n + 3 * i)) (rot_mat_to_aa mx))
     \<and> (\<forall>idx<length x. 6 * n \<le> idx \<longrightarrow> x' ! idx = x ! idx)"
proof -
  let ?result = "hacky_mat_mul (take (3 * n) x) (transpose3 mx)"
  let ?x1 = "assign_view x 0 ?result"
  let ?dp = "rot_mat_to_aa mx"
  have res: "?result = map (\<lambda>idx. \<Sum>k<3. take (3 * n) x ! (3 * (idx div 3) + k) * mx (idx mod 3) k) [0..<3 * n]"
    using assms by (simp add: hacky_mat_mul_eq [of _ n] transpose3_def)
  have lenr: "length ?result = 3 * n" by (simp add: res)
  have len1: "length ?x1 = length x"
    using assms by (simp add: length_assign_view lenr)
  have nth1: "?x1 ! idx = (if idx < 3 * n then ?result ! idx else x ! idx)" if "idx < length x" for idx
    using assms that by (simp add: nth_assign_view lenr)
  have centre: "?x1 ! (3 * i + j) = (\<Sum>k<3. x ! (3 * i + k) * mx j k)" if "i < n" "j < 3" for i j
  proof -
    have lt: "3 * i + j < 3 * n" and ltx: "3 * i + j < length x" using that assms by auto
    have dm: "(3 * i + j) div 3 = i" "(3 * i + j) mod 3 = j" using that by auto
    have tk: "take (3 * n) x ! (3 * i + k) = x ! (3 * i + k)" if "k < 3" for k
      using that \<open>i < n\<close> by simp
    have "?x1 ! (3 * i + j) = ?result ! (3 * i + j)"
      using nth1 [OF ltx] lt by simp
    also have "\<dots> = (\<Sum>k<3. take (3 * n) x ! (3 * ((3 * i + j) div 3) + k) * mx ((3 * i + j) mod 3) k)"
      unfolding res using lt by (simp only: nth_map_upt) simp
    also have "\<dots> = (\<Sum>k<3. x ! (3 * i + k) * mx j k)"
      unfolding dm by (simp add: tk)
    finally show ?thesis .
  qed
  have rot1: "vec3_at ?x1 (3 * n + 3 * i) = vec3_at x (3 * n + 3 * i)" if "i < n" for i
    using assms that by (simp add: vec3_at_def nth1)
  from rotate_loop [of n ?x1 n rotate_aa ?dp m] assms len1
  obtain ys where loop: "for_sites_inplace (rotate_site rotate_aa ?dp) [0..<n]
                \<lparr>ca_nrigid = n, ca_natoms = m, ca_coords = ?x1\<rparr>
              = (\<lparr>ca_nrigid = n, ca_natoms = m, ca_coords = ys\<rparr>, None)"
    and len: "length ys = length x"
    and rot: "\<And>i. i < n \<Longrightarrow> vec3_at ys (3 * n + 3 * i) = rotate_aa (vec3_at ?x1 (3 * n + 3 * i)) ?dp"
    and same: "\<And>idx. idx < length x \<Longrightarrow> idx < 3 * n \<or> 3 * n + 3 * n \<le> idx \<Longrightarrow> ys ! idx = ?x1 ! idx"
    by auto
  have run: "rotate_rigid_bodies rot_mat_to_aa rotate_aa n
               \<lparr>ca_nrigid = n, ca_natoms = m, ca_coords = x\<rparr> mx
             = (\<lparr>ca_nrigid = n, ca_natoms = m, ca_coords = ys\<rparr>, None)"
  proof -
    have asrt: "transpose3 mx 0 (Suc 0) = mx (Suc 0) 0" by (simp add: transpose3_def)
    show ?thesis
      using assms len1
      by (simp add: rotate_rigid_bodies_def Let_def get_rb_positions_def get_rb_rotations_def
          view_Inr ca_write_def loop asrt)
  qed
  have c: "\<forall>i<n. \<forall>j<3. ys ! (3 * i + j) = (\<Sum>k<3. x ! (3 * i + k) * mx j k)"
  proof (intro allI impI)
    fix i j :: nat
    assume "i < n" "j < 3"
    then have "3 * i + j < length x" "3 * i + j < 3 * n" using assms by auto
    then show "ys ! (3 * i + j) = (\<Sum>k<3. x ! (3 * i + k) * mx j k)"
      using \<open>i < n\<close> \<open>j < 3\<close> by (simp add: same centre)
  qed
  have r: "\<forall>i<n. vec3_at ys (3 * n + 3 * i) = rotate_aa (vec3_at x (3 * n + 3 * i)) ?dp"
    by (simp add: rot rot1)
  have t: "\<forall>idx<length x. 6 * n \<le> idx \<longrightarrow> ys ! idx = x ! idx"
    by (auto simp: same nth1)
  show ?thesis using run len c r t by blast
qed

lemma get_coords_adaptor_ok:
  "6 * nrigid t + 3 * number_of_non_rigid_atoms t \<le> length x \<Longrightarrow>
   get_coords_adaptor t x =
     Inr \<lparr>ca_nrigid = nrigid t, ca_natoms = number_of_non_rigid_atoms t, ca_coords = x\<rparr>"
  by (simp add: get_coords_adaptor_def CoordsAdaptor_def)

text \<open>
  Claim C8. For a topology with at least one rigid body and no non-rigid atoms, a
  configuration \<open>x\<close> of \<open>6 * nrigid\<close> entries and a matrix \<open>M\<close>,
  \<^verbatim>\<open>TransformAACluster::rotate\<close> returns normally; it replaces the centre block by the
  centre block times the transpose of \<open>M\<close> (entry \<open>j\<close> of centre row \<open>i\<close> becomes
  \<open>\<Sum>k. x[i,k] * M(j,k)\<close>), and the rotation vector \<open>p\<close> of every site by
  \<open>rotate_aa(p, rot_mat_to_aa(M))\<close>, the composition the rotation primitives give, not a sum
  of vectors.
\<close>

theorem TransformAACluster_rotate_rigid:
  fixes x :: "'a::semiring_0 list"
  assumes "0 < nrigid t" and "number_of_non_rigid_atoms t = 0" and "length x = 6 * nrigid t"
  shows "\<exists>x'. TransformAACluster_rotate rot_mat_to_aa rotate_aa t x mx = (x', None)
     \<and> length x' = length x
     \<and> (\<forall>i<nrigid t. \<forall>j<3. x' ! (3 * i + j) = (\<Sum>k<3. x ! (3 * i + k) * mx j k))
     \<and> (\<forall>i<nrigid t. vec3_at x' (3 * nrigid t + 3 * i) =
           rotate_aa (vec3_at x (3 * nrigid t + 3 * i)) (rot_mat_to_aa mx))"
proof -
  have "6 * nrigid t \<le> length x" using assms by simp
  from rotate_rigid_bodies_ok [OF this, of rot_mat_to_aa rotate_aa 0 mx]
  obtain x' where run: "rotate_rigid_bodies rot_mat_to_aa rotate_aa (nrigid t)
               \<lparr>ca_nrigid = nrigid t, ca_natoms = 0, ca_coords = x\<rparr> mx
             = (\<lparr>ca_nrigid = nrigid t, ca_natoms = 0, ca_coords = x'\<rparr>, None)"
    and props: "length x' = length x"
      "\<forall>i<nrigid t. \<forall>j<3. x' ! (3 * i + j) = (\<Sum>k<3. x ! (3 * i + k) * mx j k)"
      "\<forall>i<nrigid t. vec3_at x' (3 * nrigid t + 3 * i) =
           rotate_aa (vec3_at x (3 * nrigid t + 3 * i)) (rot_mat_to_aa mx)"
    by blast
  have "TransformAACluster_rotate rot_mat_to_aa rotate_aa t x mx = (x', None)"
    using assms by (simp add: TransformAACluster_rotate_def get_coords_adaptor_ok run)
  with props show ?thesis by blast
qed

theorem TransformAACluster_rotate_rigid_witness:
  "TransformAACluster_rotate (\<lambda>m. Vec3 (m 0 1) (m 1 0) (m 2 2))
     (\<lambda>p dp. Vec3 (vec3_get p 0 * vec3_get dp 0) (vec3_get p 1 * vec3_get dp 1)
        (vec3_get p 2 * vec3_get dp 2))
     \<lparr>sites = [\<lparr>atom_positions = [0, 0, 0]\<rparr>], number_of_non_rigid_atoms = 0, natoms_total = 1\<rparr>
     [1, 2, 3, 4, 5, 6 :: real] (\<lambda>i j. [[0, - 1, 0], [1, 0, 0], [0, 0, 1]] ! i ! j)
   = ([- 2, 1, 3, - 4, 5, 6], None)"
proof -
  let ?r2a = "\<lambda>m :: real matrix33. Vec3 (m 0 1) (m 1 0) (m 2 2)"
  let ?raa = "\<lambda>(p :: real vec3) dp. Vec3 (vec3_get p 0 * vec3_get dp 0) (vec3_get p 1 * vec3_get dp 1)
        (vec3_get p 2 * vec3_get dp 2)"
  let ?t = "\<lparr>sites = [\<lparr>atom_positions = [0, 0, 0 :: real]\<rparr>], number_of_non_rigid_atoms = 0,
      natoms_total = 1\<rparr>"
  let ?x = "[1, 2, 3, 4, 5, 6 :: real]"
  let ?mx = "\<lambda>i j. [[0, - 1, 0], [1, 0, 0], [0, 0, 1 :: real]] ! i ! j"
  have n: "nrigid ?t = 1" by (simp add: nrigid_def)
  have h: "0 < nrigid ?t" "number_of_non_rigid_atoms ?t = 0" "length ?x = 6 * nrigid ?t"
    by (simp_all add: nrigid_def)
  from TransformAACluster_rotate_rigid [OF h, of ?r2a ?raa ?mx]
  obtain x' where r: "TransformAACluster_rotate ?r2a ?raa ?t ?x ?mx = (x', None)"
    and len: "length x' = 6"
    and c: "\<And>j. j < 3 \<Longrightarrow> x' ! j = (\<Sum>k<3. ?x ! k * ?mx j k)"
    and p: "vec3_at x' 3 = ?raa (vec3_at ?x 3) (?r2a ?mx)"
    unfolding n by auto
  from len obtain a b c d e g where shape: "x' = [a, b, c, d, e, g]"
    by (auto simp: length_Suc_conv eval_nat_numeral)
  have "x' = [- 2, 1, 3, - 4, 5, 6]"
    using c [of 0] c [of 1] c [of 2] p
    by (simp add: shape vec3_at_def numeral_3_eq_3)
  with r show ?thesis by simp
qed

text \<open>
  Claim C9. For a topology with non-rigid atoms, \<^verbatim>\<open>TransformAACluster::rotate\<close> throws the
  runtime error ``non-rigid atoms is not yet supported'', for every rotation matrix and
  every configuration of the topology: an array of
  \<open>6 * nrigid + 3 * non_rigid_atom_count\<close> entries, which the coordinate adaptor accepts.
\<close>

theorem TransformAACluster_rotate_non_rigid_fails:
  fixes x :: "'a::semiring_0 list"
  assumes "0 < number_of_non_rigid_atoms t"
    and "length x = 6 * nrigid t + 3 * number_of_non_rigid_atoms t"
  shows "snd (TransformAACluster_rotate rot_mat_to_aa rotate_aa t x mx) = Some RuntimeError"
proof (cases "0 < nrigid t")
  case True
  have "6 * nrigid t \<le> length x" using assms by simp
  from rotate_rigid_bodies_ok [OF this, of rot_mat_to_aa rotate_aa "number_of_non_rigid_atoms t" mx]
  obtain x' where "rotate_rigid_bodies rot_mat_to_aa rotate_aa (nrigid t)
               \<lparr>ca_nrigid = nrigid t, ca_natoms = number_of_non_rigid_atoms t, ca_coords = x\<rparr> mx
             = (\<lparr>ca_nrigid = nrigid t, ca_natoms = number_of_non_rigid_atoms t, ca_coords = x'\<rparr>, None)"
    by blast
  then show ?thesis
    using assms True by (simp add: TransformAACluster_rotate_def get_coords_adaptor_ok)
next
  case False
  then show ?thesis
    using assms by (simp add: TransformAACluster_rotate_def get_coords_adaptor_ok)
qed

theorem TransformAACluster_rotate_non_rigid_fails_witness:
  "snd (TransformAACluster_rotate (\<lambda>m. Vec3 (m 0 1) (m 1 0) (m 2 2))
     (\<lambda>p dp. Vec3 (vec3_get p 0 * vec3_get dp 0) (vec3_get p 1 * vec3_get dp 1)
        (vec3_get p 2 * vec3_get dp 2))
     \<lparr>sites = [], number_of_non_rigid_atoms = 2, natoms_total = 2\<rparr>
     [1, 2, 3, 4, 5, 6 :: real] (\<lambda>i j. [[0, - 1, 0], [1, 0, 0], [0, 0, 1]] ! i ! j))
   = Some RuntimeError"
  by (rule TransformAACluster_rotate_non_rigid_fails) (simp_all add: nrigid_def)

text \<open>
  Claim C10. For a topology with rigid bodies and non-rigid atoms, and a configuration of
  the topology, \<^verbatim>\<open>TransformAACluster::rotate\<close> throws the runtime error only after it has
  rotated the rigid bodies: when the exception leaves the function, the centre block and
  the rotation block of \<open>x\<close> hold the rotated values and the entries of the non-rigid atoms
  are as they were. The witness is a configuration that the failed call has changed.
\<close>

theorem TransformAACluster_rotate_not_atomic:
  fixes x :: "'a::semiring_0 list"
  assumes "0 < nrigid t" and "0 < number_of_non_rigid_atoms t"
    and "length x = 6 * nrigid t + 3 * number_of_non_rigid_atoms t"
  shows "\<exists>x'. TransformAACluster_rotate rot_mat_to_aa rotate_aa t x mx = (x', Some RuntimeError)
     \<and> length x' = length x
     \<and> (\<forall>i<nrigid t. \<forall>j<3. x' ! (3 * i + j) = (\<Sum>k<3. x ! (3 * i + k) * mx j k))
     \<and> (\<forall>i<nrigid t. vec3_at x' (3 * nrigid t + 3 * i) =
           rotate_aa (vec3_at x (3 * nrigid t + 3 * i)) (rot_mat_to_aa mx))
     \<and> (\<forall>idx<length x. 6 * nrigid t \<le> idx \<longrightarrow> x' ! idx = x ! idx)"
proof -
  have "6 * nrigid t \<le> length x" using assms by simp
  from rotate_rigid_bodies_ok [OF this, of rot_mat_to_aa rotate_aa "number_of_non_rigid_atoms t" mx]
  obtain x' where run: "rotate_rigid_bodies rot_mat_to_aa rotate_aa (nrigid t)
               \<lparr>ca_nrigid = nrigid t, ca_natoms = number_of_non_rigid_atoms t, ca_coords = x\<rparr> mx
             = (\<lparr>ca_nrigid = nrigid t, ca_natoms = number_of_non_rigid_atoms t, ca_coords = x'\<rparr>, None)"
    and props: "length x' = length x"
      "\<forall>i<nrigid t. \<forall>j<3. x' ! (3 * i + j) = (\<Sum>k<3. x ! (3 * i + k) * mx j k)"
      "\<forall>i<nrigid t. vec3_at x' (3 * nrigid t + 3 * i) =
           rotate_aa (vec3_at x (3 * nrigid t + 3 * i)) (rot_mat_to_aa mx)"
      "\<forall>idx<length x. 6 * nrigid t \<le> idx \<longrightarrow> x' ! idx = x ! idx"
    by blast
  have "TransformAACluster_rotate rot_mat_to_aa rotate_aa t x mx = (x', Some RuntimeError)"
    using assms by (simp add: TransformAACluster_rotate_def get_coords_adaptor_ok run)
  with props show ?thesis by blast
qed

theorem TransformAACluster_rotate_not_atomic_witness:
  "TransformAACluster_rotate (\<lambda>m. Vec3 (m 0 1) (m 1 0) (m 2 2))
     (\<lambda>p dp. Vec3 (vec3_get p 0 * vec3_get dp 0) (vec3_get p 1 * vec3_get dp 1)
        (vec3_get p 2 * vec3_get dp 2))
     \<lparr>sites = [\<lparr>atom_positions = [0, 0, 0]\<rparr>], number_of_non_rigid_atoms = 1, natoms_total = 2\<rparr>
     [1, 2, 3, 4, 5, 6, 7, 8, 9 :: real] (\<lambda>i j. [[0, - 1, 0], [1, 0, 0], [0, 0, 1]] ! i ! j)
   = ([- 2, 1, 3, - 4, 5, 6, 7, 8, 9], Some RuntimeError)"
proof -
  let ?r2a = "\<lambda>m :: real matrix33. Vec3 (m 0 1) (m 1 0) (m 2 2)"
  let ?raa = "\<lambda>(p :: real vec3) dp. Vec3 (vec3_get p 0 * vec3_get dp 0) (vec3_get p 1 * vec3_get dp 1)
        (vec3_get p 2 * vec3_get dp 2)"
  let ?t = "\<lparr>sites = [\<lparr>atom_positions = [0, 0, 0 :: real]\<rparr>], number_of_non_rigid_atoms = 1,
      natoms_total = 2\<rparr>"
  let ?x = "[1, 2, 3, 4, 5, 6, 7, 8, 9 :: real]"
  let ?mx = "\<lambda>i j. [[0, - 1, 0], [1, 0, 0], [0, 0, 1 :: real]] ! i ! j"
  have n: "nrigid ?t = 1" by (simp add: nrigid_def)
  have h: "0 < nrigid ?t" "0 < number_of_non_rigid_atoms ?t"
    "length ?x = 6 * nrigid ?t + 3 * number_of_non_rigid_atoms ?t"
    by (simp_all add: nrigid_def)
  from TransformAACluster_rotate_not_atomic [OF h, of ?r2a ?raa ?mx]
  obtain x' where r: "TransformAACluster_rotate ?r2a ?raa ?t ?x ?mx = (x', Some RuntimeError)"
    and len: "length x' = 9"
    and c: "\<And>j. j < 3 \<Longrightarrow> x' ! j = (\<Sum>k<3. ?x ! k * ?mx j k)"
    and p: "vec3_at x' 3 = ?raa (vec3_at ?x 3) (?r2a ?mx)"
    and u: "\<And>idx. idx < 9 \<Longrightarrow> 6 \<le> idx \<Longrightarrow> x' ! idx = ?x ! idx"
    unfolding n by auto
  from len obtain a b c d e g h i j where shape: "x' = [a, b, c, d, e, g, h, i, j]"
    by (auto simp: length_Suc_conv eval_nat_numeral)
  have "x' = [- 2, 1, 3, - 4, 5, 6, 7, 8, 9]"
    using c [of 0] c [of 1] c [of 2] p u [of 6] u [of 7] u [of 8]
    by (simp add: shape vec3_at_def numeral_3_eq_3)
  with r show ?thesis by simp
qed

end
